theory Spec2Isabelle
  imports Complex_Main "HOL-Library.Sublist"
begin

section \<open>Go standard library functions used by the loader\<close>

text \<open>
  The loader is a Go package.  Go strings are byte sequences and are modelled as
  \<^typ>\<open>string\<close>; text in them is UTF-8.  The library functions below follow the Go
  standard library (packages unicode/utf8, unicode, strings, path/filepath on a Unix
  target, and time).  A rune is the natural number of its code point.
\<close>

subsection \<open>Packages unicode/utf8 and unicode\<close>

definition RuneError :: nat where
  "RuneError = 0xFFFD"

text \<open>
  \<^verbatim>\<open>utf8.DecodeRuneInString(s)\<close>: the rune at the start of s and its width in bytes.
  An encoding that is invalid, too short, not the shortest one, of a surrogate or above
  U+10FFFF gives RuneError with width 1; the empty string gives RuneError with width 0.
  The masked bytes shifted and or-ed in Go are disjoint bit fields: they are added here.
\<close>

fun DecodeRuneInString :: "string \<Rightarrow> nat \<times> nat" where
  "DecodeRuneInString [] = (RuneError, 0)"
| "DecodeRuneInString (c0 # cs) =
     (let s0 = of_char c0 :: nat
      in if s0 < 0x80 then (s0, 1)
         else if s0 < 0xC2 \<or> 0xF4 < s0 then (RuneError, 1)
         else let sz = (if s0 < 0xE0 then 2 else if s0 < 0xF0 then 3 else 4) :: nat;
                  lo = (if s0 = 0xE0 then 0xA0 else if s0 = 0xF0 then 0x90 else 0x80) :: nat;
                  hi = (if s0 = 0xED then 0x9F else if s0 = 0xF4 then 0x8F else 0xBF) :: nat
              in if length (c0 # cs) < sz then (RuneError, 1)
                 else let s1 = of_char (cs ! 0) :: nat
                      in if s1 < lo \<or> hi < s1 then (RuneError, 1)
                         else if sz \<le> 2 then ((s0 mod 0x20) * 0x40 + s1 mod 0x40, 2)
                         else let s2 = of_char (cs ! 1) :: nat
                              in if s2 < 0x80 \<or> 0xBF < s2 then (RuneError, 1)
                                 else if sz \<le> 3
                                 then ((s0 mod 0x10) * 0x1000 + (s1 mod 0x40) * 0x40 + s2 mod 0x40, 3)
                                 else let s3 = of_char (cs ! 2) :: nat
                                      in if s3 < 0x80 \<or> 0xBF < s3 then (RuneError, 1)
                                         else ((s0 mod 0x08) * 0x40000 + (s1 mod 0x40) * 0x1000
                                               + (s2 mod 0x40) * 0x40 + s3 mod 0x40, 4))"

text \<open>\<^verbatim>\<open>utf8.RuneStart(b)\<close>: b is not a continuation byte.\<close>

definition RuneStart :: "char \<Rightarrow> bool" where
  "RuneStart b = (\<not> (0x80 \<le> (of_char b :: nat) \<and> (of_char b :: nat) < 0xC0))"

text \<open>
  \<^verbatim>\<open>utf8.DecodeLastRuneInString(s)\<close>.  Go walks back from the byte before the last
  to the nearest byte that starts a rune, through at most the last four bytes of s
  (the three steps of the loop are written out), decodes from there and accepts the
  rune if it ends where s ends.  When no such byte is found the start is one below the
  limit, or 0 where Go resets a negative start: n - 5 in natural numbers.
\<close>

definition DecodeLastRuneInString :: "string \<Rightarrow> nat \<times> nat" where
  "DecodeLastRuneInString s =
     (let n = length s
      in if n = 0 then (RuneError, 0)
         else let r = of_char (s ! (n - 1)) :: nat
              in if r < 0x80 then (r, 1)
                 else let start = (if 2 \<le> n \<and> RuneStart (s ! (n - 2)) then n - 2
                                   else if 3 \<le> n \<and> RuneStart (s ! (n - 3)) then n - 3
                                   else if 4 \<le> n \<and> RuneStart (s ! (n - 4)) then n - 4
                                   else n - 5)
                      in case DecodeRuneInString (drop start s) of
                           (r, wid) \<Rightarrow> if start + wid \<noteq> n then (RuneError, 1) else (r, wid))"

text \<open>
  \<^verbatim>\<open>unicode.IsSpace(r)\<close>: in Latin-1 the six ASCII spaces, U+0085 and U+00A0; above
  it the code points of the property White_Space.
\<close>

definition IsSpace :: "nat \<Rightarrow> bool" where
  "IsSpace r =
     (if r \<le> 0xFF
      then r = 0x09 \<or> r = 0x0A \<or> r = 0x0B \<or> r = 0x0C \<or> r = 0x0D \<or> r = 0x20 \<or> r = 0x85 \<or> r = 0xA0
      else r = 0x1680 \<or> (0x2000 \<le> r \<and> r \<le> 0x200A) \<or> r = 0x2028 \<or> r = 0x2029 \<or> r = 0x202F
           \<or> r = 0x205F \<or> r = 0x3000)"

subsection \<open>Package strings\<close>

text \<open>
  \<^verbatim>\<open>strings.TrimLeftFunc(s, f)\<close>: s from its first rune that does not satisfy f.  The
  first byte of the rune decoded is c, so the rest of it is dropped from cs.
\<close>

fun TrimLeftFunc :: "string \<Rightarrow> (nat \<Rightarrow> bool) \<Rightarrow> string" where
  "TrimLeftFunc [] f = []"
| "TrimLeftFunc (c # cs) f =
     (case DecodeRuneInString (c # cs) of
        (r, w) \<Rightarrow> if f r then TrimLeftFunc (drop (w - 1) cs) f else c # cs)"

text \<open>
  \<^verbatim>\<open>lastIndexFunc(s, f, false)\<close>: the index of the last rune of s that does not
  satisfy f, or -1.  Go keeps an index i into s and decodes the last rune of s[0:i];
  here the prefix s[0:i] is the argument.
\<close>

function lastIndexFunc :: "string \<Rightarrow> (nat \<Rightarrow> bool) \<Rightarrow> int" where
  "lastIndexFunc s f =
     (if s = [] then - 1
      else case DecodeLastRuneInString s of
             (r, wid) \<Rightarrow>
               if f r then lastIndexFunc (take (length s - wid) s) f else int (length s - wid))"
  by pat_completeness auto
termination
proof (relation "measure (\<lambda>(s, f). length s)", goal_cases)
  case 1
  show ?case by simp
next
  case (2 s f r wid)
  then have n: "0 < length s" by simp
  from 2 have "DecodeLastRuneInString s = (r, wid)" by simp
  then have "0 < wid"
    using n unfolding DecodeLastRuneInString_def Let_def
    by (auto simp del: length_greater_0_conv split: if_splits prod.splits)
  with n show ?case by simp
qed

text \<open>\<^verbatim>\<open>strings.TrimRightFunc(s, f)\<close>.\<close>

definition TrimRightFunc :: "string \<Rightarrow> (nat \<Rightarrow> bool) \<Rightarrow> string" where
  "TrimRightFunc s f =
     (let i = lastIndexFunc s f
      in if i \<ge> 0 \<and> of_char (s ! nat i) \<ge> (0x80 :: nat)
         then take (nat i + snd (DecodeRuneInString (drop (nat i) s))) s
         else take (nat (i + 1)) s)"

text \<open>
  \<^verbatim>\<open>strings.TrimSpace(s)\<close>: s without its leading and trailing white space, as
  Unicode defines it.  Go trims ASCII spaces bytewise and hands over to
  \<^verbatim>\<open>TrimFunc(s, unicode.IsSpace)\<close> at the first byte that is not ASCII, which gives
  the same string as trimming with that function from the start.
\<close>

definition TrimSpace :: "string \<Rightarrow> string" where
  "TrimSpace s = TrimRightFunc (TrimLeftFunc s IsSpace) IsSpace"

text \<open>\<^verbatim>\<open>strings.Contains(s, substr)\<close>.\<close>

fun Contains :: "string \<Rightarrow> string \<Rightarrow> bool" where
  "Contains [] substr = (substr = [])"
| "Contains (c # cs) substr = (prefix substr (c # cs) \<or> Contains cs substr)"

text \<open>
  \<^verbatim>\<open>strings.Split(s, sep)\<close> for a separator of one byte, which is what every call of
  the loader passes.  The result is never empty: splitting the empty string gives one
  empty piece.
\<close>

fun Split :: "string \<Rightarrow> char \<Rightarrow> string list" where
  "Split [] sep = [[]]"
| "Split (c # cs) sep =
     (if c = sep then [] # Split cs sep
      else (case Split cs sep of [] \<Rightarrow> [[c]] | p # ps \<Rightarrow> (c # p) # ps))"

text \<open>\<^verbatim>\<open>strings.Join(elems, sep)\<close> for a separator of one byte.\<close>

fun Join :: "string list \<Rightarrow> char \<Rightarrow> string" where
  "Join [] sep = []"
| "Join [e] sep = e"
| "Join (e # es) sep = e @ sep # Join es sep"

text \<open>
  \<^verbatim>\<open>strings.Fields(s)\<close>: the maximal runs of runes that are not white space, as
  \<^verbatim>\<open>FieldsFunc(s, unicode.IsSpace)\<close> gives them (Go's path for ASCII strings gives
  the same).  The first argument is the field being read, reversed.
\<close>

fun fields_from :: "string \<Rightarrow> string \<Rightarrow> string list" where
  "fields_from cur [] = (if cur = [] then [] else [rev cur])"
| "fields_from cur (c # cs) =
     (case DecodeRuneInString (c # cs) of
        (r, w) \<Rightarrow>
          if IsSpace r
          then (if cur = [] then fields_from [] (drop (w - 1) cs)
                else rev cur # fields_from [] (drop (w - 1) cs))
          else fields_from (rev (take (w - 1) cs) @ c # cur) (drop (w - 1) cs))"

definition Fields :: "string \<Rightarrow> string list" where
  "Fields s = fields_from [] s"

definition HasSuffix :: "string \<Rightarrow> string \<Rightarrow> bool" where
  "HasSuffix s suf = suffix suf s"

definition TrimSuffix :: "string \<Rightarrow> string \<Rightarrow> string" where
  "TrimSuffix s suf = (if HasSuffix s suf then take (length s - length suf) s else s)"

text \<open>\<^verbatim>\<open>strings.LastIndex(s, substr)\<close>: the last position where substr starts, or -1.\<close>

definition LastIndex :: "string \<Rightarrow> string \<Rightarrow> int" where
  "LastIndex s substr =
     (case filter (\<lambda>i. prefix substr (drop i s)) (rev [0 ..< Suc (length s)]) of
        [] \<Rightarrow> - 1
      | i # _ \<Rightarrow> int i)"

subsection \<open>Package path/filepath (Unix: the separator is the slash)\<close>

definition IsPathSeparator :: "char \<Rightarrow> bool" where
  "IsPathSeparator c = (c = CHR ''/'')"

text \<open>\<^verbatim>\<open>filepath.ToSlash\<close> returns its argument when the separator is the slash.\<close>

definition ToSlash :: "string \<Rightarrow> string" where
  "ToSlash path = path"

definition Base :: "string \<Rightarrow> string" where
  "Base path =
     (if path = [] then ''.''
      else let stripped = rev (dropWhile IsPathSeparator (rev path));
               elem = rev (takeWhile (\<lambda>c. \<not> IsPathSeparator c) (rev stripped))
           in if elem = [] then ''/'' else elem)"

text \<open>
  \<^verbatim>\<open>filepath.Ext\<close> scans from the end up to the last separator and returns the suffix
  that starts at the first dot it meets.  The first argument of the scan is the path
  reversed, the second the bytes already passed.
\<close>

fun ext_scan :: "string \<Rightarrow> string \<Rightarrow> string" where
  "ext_scan [] passed = []"
| "ext_scan (c # cs) passed =
     (if IsPathSeparator c then []
      else if c = CHR ''.'' then c # passed
      else ext_scan cs (c # passed))"

definition Ext :: "string \<Rightarrow> string" where
  "Ext path = ext_scan (rev path) []"

subsection \<open>Package time\<close>

text \<open>
  A \<^verbatim>\<open>time.Time\<close> is an instant: seconds since the Unix epoch and nanoseconds
  within the second.  A \<^verbatim>\<open>*time.Location\<close> made by \<^verbatim>\<open>time.FixedZone\<close> is its
  offset east of UTC in seconds.  A \<^verbatim>\<open>time.Duration\<close> is a number of nanoseconds.
\<close>

record Time =
  unix_sec :: int
  nsec :: int

type_synonym Location = int

definition Second :: int where
  "Second = 1000000000"

definition Minute :: int where
  "Minute = 60 * Second"

definition Unix :: "Time \<Rightarrow> int" where
  "Unix t = unix_sec t"

text \<open>
  \<^verbatim>\<open>t.Truncate(d)\<close> rounds the instant down to a multiple of d counted from Go's zero
  time, 1 January of year 1, which is 62135596800 seconds before the Unix epoch; for
  d not positive it returns t.
\<close>

definition unixToInternal :: int where
  "unixToInternal = 62135596800"

definition Truncate :: "Time \<Rightarrow> int \<Rightarrow> Time" where
  "Truncate t d =
     (if d \<le> 0 then t
      else let abs_ns = (unix_sec t + unixToInternal) * Second + nsec t;
               r = abs_ns - abs_ns mod d
           in \<lparr>unix_sec = r div Second - unixToInternal, nsec = r mod Second\<rparr>)"

definition isDigit :: "char \<Rightarrow> bool" where
  "isDigit c = (48 \<le> (of_char c :: nat) \<and> (of_char c :: nat) \<le> 57)"

definition digit :: "char \<Rightarrow> int" where
  "digit c = int (of_char c) - 48"

datatype parse_error = ErrBad | ErrRange | ErrExtraText

text \<open>
  \<^verbatim>\<open>getnum(s, fixed)\<close> reads one or two digits; when fixed it insists on two.
\<close>

fun getnum :: "string \<Rightarrow> bool \<Rightarrow> parse_error + (int \<times> string)" where
  "getnum [] fixed = Inl ErrBad"
| "getnum [a] fixed =
     (if \<not> isDigit a then Inl ErrBad
      else if fixed then Inl ErrBad else Inr (digit a, []))"
| "getnum (a # b # rest) fixed =
     (if \<not> isDigit a then Inl ErrBad
      else if \<not> isDigit b then (if fixed then Inl ErrBad else Inr (digit a, b # rest))
      else Inr (digit a * 10 + digit b, rest))"

text \<open>The four-digit year of the layout element 2006.\<close>

fun getyear :: "string \<Rightarrow> parse_error + (int \<times> string)" where
  "getyear (a # b # c # d # rest) =
     (if isDigit a \<and> isDigit b \<and> isDigit c \<and> isDigit d
      then Inr (digit a * 1000 + digit b * 100 + digit c * 10 + digit d, rest)
      else Inl ErrBad)"
| "getyear s = Inl ErrBad"

text \<open>
  \<^verbatim>\<open>skip(value, prefix)\<close> for the two literal pieces of the layouts: one byte that
  must match, and the space, which matches a run of spaces (and the end of the value).
\<close>

definition skip_byte :: "char \<Rightarrow> string \<Rightarrow> parse_error + string" where
  "skip_byte c s = (case s of [] \<Rightarrow> Inl ErrBad | a # rest \<Rightarrow> if a = c then Inr rest else Inl ErrBad)"

definition skip_space :: "string \<Rightarrow> parse_error + string" where
  "skip_space s =
     (case s of [] \<Rightarrow> Inr []
      | a # rest \<Rightarrow> if a \<noteq> CHR 0x20 then Inl ErrBad else Inr (dropWhile (\<lambda>c. c = CHR 0x20) s))"

text \<open>
  After the seconds the parser accepts a fraction that the layout does not mention: a
  period or comma followed by digits.  At most nine digits count; the result is the
  number of nanoseconds and the rest of the value.
\<close>

definition frac_seconds :: "string \<Rightarrow> int \<times> string" where
  "frac_seconds s =
     (case s of
        a # b # rest \<Rightarrow>
          if (a = CHR ''.'' \<or> a = CHR '','') \<and> isDigit b
          then let ds = takeWhile isDigit (b # rest);
                   used = take 9 ds
               in (foldl (\<lambda>n c. n * 10 + digit c) 0 used * 10 ^ (9 - length used),
                   dropWhile isDigit (b # rest))
          else (0, s)
      | _ \<Rightarrow> (0, s))"

definition isLeap :: "int \<Rightarrow> bool" where
  "isLeap year = (year mod 4 = 0 \<and> (year mod 100 \<noteq> 0 \<or> year mod 400 = 0))"

definition daysIn :: "int \<Rightarrow> int \<Rightarrow> int" where
  "daysIn month year =
     (if month = 2 then (if isLeap year then 29 else 28)
      else if month = 4 \<or> month = 6 \<or> month = 9 \<or> month = 11 then 30 else 31)"

text \<open>Days from 1 January 1970 to a date of the proleptic Gregorian calendar.\<close>

definition days_from_civil :: "int \<Rightarrow> int \<Rightarrow> int \<Rightarrow> int" where
  "days_from_civil year month day =
     (let y = (if month \<le> 2 then year - 1 else year);
          era = y div 400;
          yoe = y - era * 400;
          mp = (if month > 2 then month - 3 else month + 9);
          doy = (153 * mp + 2) div 5 + day - 1;
          doe = yoe * 365 + yoe div 4 - yoe div 100 + doy
      in era * 146097 + doe - 719468)"

text \<open>The fields of a parsed date and time, as the parser collects them.\<close>

record Fields6 =
  f_year :: int
  f_month :: int
  f_day :: int
  f_hour :: int
  f_min :: int
  f_sec :: int
  f_nsec :: int

text \<open>
  \<^verbatim>\<open>time.Date\<close> in a fixed zone: the civil time read as UTC, less the offset.
\<close>

definition Date :: "Fields6 \<Rightarrow> Location \<Rightarrow> Time" where
  "Date f loc =
     \<lparr>unix_sec = days_from_civil (f_year f) (f_month f) (f_day f) * 86400
                  + f_hour f * 3600 + f_min f * 60 + f_sec f - loc,
      nsec = f_nsec f\<rparr>"

text \<open>
  The two layouts the loader parses with: \<^verbatim>\<open>20060102150405\<close> (Compact) and
  \<^verbatim>\<open>2006-01-02 15:04:05\<close> (Dashed).  The elements are: a four-digit year, two-digit
  month and day, an hour of one or two digits, two-digit minute and second.  Each
  range is checked where the element is read, the day of the month at the end.
\<close>

datatype layout = Compact | Dashed

definition sep_byte :: "layout \<Rightarrow> char \<Rightarrow> string \<Rightarrow> parse_error + string" where
  "sep_byte l c s = (case l of Compact \<Rightarrow> Inr s | Dashed \<Rightarrow> skip_byte c s)"

definition sep_space :: "layout \<Rightarrow> string \<Rightarrow> parse_error + string" where
  "sep_space l s = (case l of Compact \<Rightarrow> Inr s | Dashed \<Rightarrow> skip_space s)"

text \<open>A step of the parser: an error ends the parse, a result goes on to the next step.\<close>

definition and_then :: "parse_error + 'a \<Rightarrow> ('a \<Rightarrow> parse_error + 'b) \<Rightarrow> parse_error + 'b" where
  "and_then r f = (case r of Inl e \<Rightarrow> Inl e | Inr x \<Rightarrow> f x)"

definition parse_clock :: "layout \<Rightarrow> int \<Rightarrow> int \<Rightarrow> int \<Rightarrow> string \<Rightarrow> parse_error + Fields6" where
  "parse_clock l year month day s4 =
     and_then (getnum s4 False) (\<lambda>(hour, s5).
       if hour < 0 \<or> 24 \<le> hour then Inl ErrRange else
     and_then (sep_byte l CHR '':'' s5) (\<lambda>s5'.
     and_then (getnum s5' True) (\<lambda>(minute, s6).
       if minute < 0 \<or> 60 \<le> minute then Inl ErrRange else
     and_then (sep_byte l CHR '':'' s6) (\<lambda>s6'.
     and_then (getnum s6' True) (\<lambda>(sec, s7).
       if sec < 0 \<or> 60 \<le> sec then Inl ErrRange else
       (let (ns, s8) = frac_seconds s7
        in if s8 \<noteq> [] then Inl ErrExtraText
           else if day < 1 \<or> day > daysIn month year then Inl ErrRange
           else Inr \<lparr>f_year = year, f_month = month, f_day = day, f_hour = hour,
                     f_min = minute, f_sec = sec, f_nsec = ns\<rparr>))))))"

definition parse_fields :: "layout \<Rightarrow> string \<Rightarrow> parse_error + Fields6" where
  "parse_fields l s0 =
     and_then (getyear s0) (\<lambda>(year, s1).
     and_then (sep_byte l CHR ''-'' s1) (\<lambda>s1'.
     and_then (getnum s1' True) (\<lambda>(month, s2).
       if month \<le> 0 \<or> 12 < month then Inl ErrRange else
     and_then (sep_byte l CHR ''-'' s2) (\<lambda>s2'.
     and_then (getnum s2' True) (\<lambda>(day, s3).
     and_then (sep_space l s3) (\<lambda>s4.
       parse_clock l year month day s4))))))"

definition ParseInLocation :: "layout \<Rightarrow> string \<Rightarrow> Location \<Rightarrow> parse_error + Time" where
  "ParseInLocation l v loc =
     (case parse_fields l v of Inl e \<Rightarrow> Inl e | Inr f \<Rightarrow> Inr (Date f loc))"

text \<open>
  \<^verbatim>\<open>strconv.ParseInt(s, 10, 64)\<close>: an optional sign and at least one decimal digit;
  a value outside the 64-bit range is an error.
\<close>

definition ParseInt :: "string \<Rightarrow> int option" where
  "ParseInt s =
     (let neg = (s \<noteq> [] \<and> hd s = CHR ''-'');
          ds = (if s \<noteq> [] \<and> (hd s = CHR ''-'' \<or> hd s = CHR ''+'') then tl s else s)
      in if ds = [] \<or> \<not> list_all isDigit ds then None
         else let n = foldl (\<lambda>n c. n * 10 + digit c) 0 ds;
                  v = (if neg then - n else n)
              in if v < - (2 ^ 63) \<or> 2 ^ 63 \<le> v then None else Some v)"

section \<open>Data model\<close>

text \<open>
  A value stored in a document (Go's \<^verbatim>\<open>interface{}\<close>): an integer (int, int32 or
  int64), a float64, or a value of any other type.  The type of float64 values is a
  parameter; parsing and converting them are external functions.
\<close>

datatype 'f bval = VInt int | VFloat 'f | VOther string

type_synonym 'f SensorRecord = "string \<rightharpoonup> 'f bval"

record Metric =
  Code :: string
  Name :: string

record BoxBR =
  BR_ID :: string
  BR_Path :: string
  BR_Metrics :: "Metric list"

record AmChuaBox =
  AC_ID :: string
  AC_Metrics :: "Metric list"

record Box =
  Box_ID :: string
  Box_DeviceID :: string

record FieldMapping =
  FM_Code :: string
  FM_Alias :: string

record Config =
  Debug :: bool
  TimezoneOffset :: int
  TimezoneLocation :: Location

text \<open>
  Errors: a message the loader makes, an error wrapped with a prefix
  (\<^verbatim>\<open>fmt.Errorf("...: %w", err)\<close>), a failure of \<^verbatim>\<open>time.ParseInLocation\<close>, an error
  returned by an external service with its message, and the run-time panic of a nil
  pointer dereference.
\<close>

datatype error =
    Errorf string
  | Wrapped string error
  | ParseError parse_error
  | External string
  | NilDereference

subsection \<open>External collaborators\<close>

text \<open>
  The document store, the object storage, the clock, the CSV reader and the float64
  functions are outside the loader.  They are parameters: functions on a world of any
  type.  A store call returns the driver's error message or its result.
\<close>

datatype 'a find_result = Found 'a | ErrNoDocuments | FindFailed string

record ('w, 'f) externals =
  ParseFloat :: "string \<Rightarrow> 'f option"
  float_to_int64 :: "'f \<Rightarrow> int"
  csv_Read :: "string \<Rightarrow> string + string list"
  csv_ReadAll :: "string \<Rightarrow> string + string list list"
  time_Now :: "'w \<Rightarrow> int"
  gcs_read :: "string \<Rightarrow> string \<Rightarrow> 'w \<Rightarrow> (string + string) \<times> 'w"
  gcs_copy :: "string \<Rightarrow> string \<Rightarrow> string \<Rightarrow> 'w \<Rightarrow> string option \<times> 'w"
  mongo_InsertOne :: "string \<Rightarrow> 'f SensorRecord \<Rightarrow> 'w \<Rightarrow> string option \<times> 'w"
  mongo_InsertMany :: "string \<Rightarrow> 'f SensorRecord list \<Rightarrow> 'w \<Rightarrow> (string + nat) \<times> 'w"
  mongo_FindLatest :: "string \<Rightarrow> 'w \<Rightarrow> 'f SensorRecord find_result \<times> 'w"
  mongo_FindBox :: "string \<Rightarrow> 'w \<Rightarrow> Box find_result \<times> 'w"

text \<open>
  The state threaded through the loader: the world of the external services and the
  list of the calls made to them so far, oldest first.
\<close>

datatype 'f call =
    InsertOneCall string "'f SensorRecord"
  | InsertManyCall string "'f SensorRecord list"
  | FindLatestCall string
  | FindBoxCall string
  | ReadCall string string
  | CopyCall string string string

record ('w, 'f) state =
  world :: 'w
  calls :: "'f call list"

definition InsertOne ::
  "('w, 'f) externals \<Rightarrow> string \<Rightarrow> 'f SensorRecord \<Rightarrow> ('w, 'f) state \<Rightarrow> string option \<times> ('w, 'f) state" where
  "InsertOne X col doc s =
     (case mongo_InsertOne X col doc (world s) of
        (r, w) \<Rightarrow> (r, \<lparr>world = w, calls = calls s @ [InsertOneCall col doc]\<rparr>))"

definition InsertMany ::
  "('w, 'f) externals \<Rightarrow> string \<Rightarrow> 'f SensorRecord list \<Rightarrow> ('w, 'f) state \<Rightarrow> (string + nat) \<times> ('w, 'f) state" where
  "InsertMany X col docs s =
     (case mongo_InsertMany X col docs (world s) of
        (r, w) \<Rightarrow> (r, \<lparr>world = w, calls = calls s @ [InsertManyCall col docs]\<rparr>))"

definition FindLatest ::
  "('w, 'f) externals \<Rightarrow> string \<Rightarrow> ('w, 'f) state \<Rightarrow> 'f SensorRecord find_result \<times> ('w, 'f) state" where
  "FindLatest X col s =
     (case mongo_FindLatest X col (world s) of
        (r, w) \<Rightarrow> (r, \<lparr>world = w, calls = calls s @ [FindLatestCall col]\<rparr>))"

definition FindBox ::
  "('w, 'f) externals \<Rightarrow> string \<Rightarrow> ('w, 'f) state \<Rightarrow> Box find_result \<times> ('w, 'f) state" where
  "FindBox X deviceID s =
     (case mongo_FindBox X deviceID (world s) of
        (r, w) \<Rightarrow> (r, \<lparr>world = w, calls = calls s @ [FindBoxCall deviceID]\<rparr>))"

definition ReadObject ::
  "('w, 'f) externals \<Rightarrow> string \<Rightarrow> string \<Rightarrow> ('w, 'f) state \<Rightarrow> (string + string) \<times> ('w, 'f) state" where
  "ReadObject X bucket name s =
     (case gcs_read X bucket name (world s) of
        (r, w) \<Rightarrow> (r, \<lparr>world = w, calls = calls s @ [ReadCall bucket name]\<rparr>))"

definition CopyObject ::
  "('w, 'f) externals \<Rightarrow> string \<Rightarrow> string \<Rightarrow> string \<Rightarrow> ('w, 'f) state \<Rightarrow> string option \<times> ('w, 'f) state" where
  "CopyObject X bucket src dst s =
     (case gcs_copy X bucket src dst (world s) of
        (r, w) \<Rightarrow> (r, \<lparr>world = w, calls = calls s @ [CopyCall bucket src dst]\<rparr>))"

section \<open>Box registries\<close>

definition BoxesBR :: "BoxBR list" where
  "BoxesBR =
     [\<lparr>BR_ID = ''S83FIGA0'', BR_Path = ''HoSongRay_KenhSongRay'',
       BR_Metrics = [\<lparr>Code = ''WAU'', Name = ''MNK''\<rparr>, \<lparr>Code = ''DR1'', Name = ''Domocong''\<rparr>]\<rparr>,
      \<lparr>BR_ID = ''A3M6KKN6'', BR_Path = ''HoSongRay_HaLuu'',
       BR_Metrics = [\<lparr>Code = ''WAD'', Name = ''MNH''\<rparr>]\<rparr>,
      \<lparr>BR_ID = ''L3Q7718O'', BR_Path = ''HoDaBang_TramDoMN+MoCong'',
       BR_Metrics = [\<lparr>Code = ''WAU'', Name = ''MNH''\<rparr>, \<lparr>Code = ''DR1'', Name = ''Domocong''\<rparr>]\<rparr>,
      \<lparr>BR_ID = ''45J68MTA'', BR_Path = ''HoXuyenMoc_TramDoMN+MoCong'',
       BR_Metrics = [\<lparr>Code = ''WAU'', Name = ''MNH''\<rparr>, \<lparr>Code = ''DR1'', Name = ''Domocong_0''\<rparr>]\<rparr>,
      \<lparr>BR_ID = ''V51HBHL0'', BR_Path = ''HoSuoiCac_TramDoMN+MoCong'',
       BR_Metrics = [\<lparr>Code = ''WAU'', Name = ''MNH''\<rparr>, \<lparr>Code = ''DR1'', Name = ''Domocong_0''\<rparr>]\<rparr>,
      \<lparr>BR_ID = ''2Y63JKZ2'', BR_Path = ''HoKimLong_TramDoMoCong'',
       BR_Metrics = [\<lparr>Code = ''DR1'', Name = ''Domocong_KimLong_0''\<rparr>]\<rparr>,
      \<lparr>BR_ID = ''KEHF4MGC'', BR_Path = ''HoKimLong_TramDoMucNuoc'',
       BR_Metrics = [\<lparr>Code = ''WAU'', Name = ''MNH_KimLong''\<rparr>]\<rparr>,
      \<lparr>BR_ID = ''JRUTJ9KX'', BR_Path = ''HoChauPha'',
       BR_Metrics = [\<lparr>Code = ''WAU'', Name = ''MNH_ChauPha''\<rparr>, \<lparr>Code = ''DR1'', Name = ''Domocong''\<rparr>]\<rparr>]"

definition AmChuaBoxes :: "AmChuaBox list" where
  "AmChuaBoxes =
     [\<lparr>AC_ID = ''P7IBJJ87'', AC_Metrics = [\<lparr>Code = ''RA'', Name = ''rain_1''\<rparr>]\<rparr>,
      \<lparr>AC_ID = ''LPDNWOUM'', AC_Metrics = [\<lparr>Code = ''WAU'', Name = ''waterup''\<rparr>]\<rparr>,
      \<lparr>AC_ID = ''YLW16RKW'', AC_Metrics = [\<lparr>Code = ''DR1'', Name = ''TaperValve''\<rparr>]\<rparr>,
      \<lparr>AC_ID = ''RIENVHK4'',
       AC_Metrics = [\<lparr>Code = ''DR1'', Name = ''drain_1''\<rparr>, \<lparr>Code = ''DR2'', Name = ''drain_2''\<rparr>]\<rparr>,
      \<lparr>AC_ID = ''T5CRC2FV'', AC_Metrics = [\<lparr>Code = ''RA'', Name = ''rain_2''\<rparr>]\<rparr>]"

definition FieldNameMapping :: "FieldMapping list" where
  "FieldNameMapping =
     [\<lparr>FM_Code = ''WA'', FM_Alias = ''water''\<rparr>,
      \<lparr>FM_Code = ''WAU'', FM_Alias = ''water_up''\<rparr>,
      \<lparr>FM_Code = ''WAD'', FM_Alias = ''water_do''\<rparr>,
      \<lparr>FM_Code = ''WAO'', FM_Alias = ''water_overflow''\<rparr>,
      \<lparr>FM_Code = ''DR'', FM_Alias = ''drain''\<rparr>,
      \<lparr>FM_Code = ''DR1'', FM_Alias = ''drain_1''\<rparr>,
      \<lparr>FM_Code = ''DR2'', FM_Alias = ''drain_2''\<rparr>,
      \<lparr>FM_Code = ''DR3'', FM_Alias = ''drain_3''\<rparr>,
      \<lparr>FM_Code = ''SA'', FM_Alias = ''salt''\<rparr>,
      \<lparr>FM_Code = ''RA'', FM_Alias = ''rain''\<rparr>,
      \<lparr>FM_Code = ''TE'', FM_Alias = ''temp''\<rparr>,
      \<lparr>FM_Code = ''VO'', FM_Alias = ''volt''\<rparr>,
      \<lparr>FM_Code = ''WP'', FM_Alias = ''water_proof''\<rparr>,
      \<lparr>FM_Code = ''WP1'', FM_Alias = ''water_proof_1''\<rparr>,
      \<lparr>FM_Code = ''WP2'', FM_Alias = ''water_proof_2''\<rparr>,
      \<lparr>FM_Code = ''WP3'', FM_Alias = ''water_proof_3''\<rparr>,
      \<lparr>FM_Code = ''WP4'', FM_Alias = ''water_proof_4''\<rparr>,
      \<lparr>FM_Code = ''TI'', FM_Alias = ''tilt''\<rparr>,
      \<lparr>FM_Code = ''TIS'', FM_Alias = ''tilt_shift''\<rparr>]"

text \<open>The alias table, filled in the order of the list (a later entry would win).\<close>

definition AliasToCode :: "string \<rightharpoonup> string" where
  "AliasToCode = foldl (\<lambda>m fm. m(FM_Alias fm \<mapsto> FM_Code fm)) Map.empty FieldNameMapping"

definition BATCH_SIZE :: nat where
  "BATCH_SIZE = 1024"

definition MIN_EVENT_AGE_SECONDS :: int where
  "MIN_EVENT_AGE_SECONDS = 300"

text \<open>The initial value of the variable \<^verbatim>\<open>EVENT_MAX_AGE_SECONDS\<close>.\<close>

definition EVENT_MAX_AGE_SECONDS_default :: int where
  "EVENT_MAX_AGE_SECONDS_default = 86400"

section \<open>FamilyA: the BaRia loader\<close>

fun MatchBariaBox_in :: "BoxBR list \<Rightarrow> string \<Rightarrow> BoxBR option" where
  "MatchBariaBox_in [] path = None"
| "MatchBariaBox_in (box # rest) path =
     (if Contains path (BR_Path box) then Some box else MatchBariaBox_in rest path)"

definition MatchBariaBox :: "string \<Rightarrow> BoxBR option" where
  "MatchBariaBox filename = MatchBariaBox_in BoxesBR (ToSlash filename)"

definition IsBariaFile :: "string \<Rightarrow> bool" where
  "IsBariaFile filename = (MatchBariaBox filename \<noteq> None)"

definition ParseBariaTimestampFromFilename :: "Config \<Rightarrow> string \<Rightarrow> error + int" where
  "ParseBariaTimestampFromFilename cfg filename =
     (let base = TrimSuffix (Base filename) (Ext (Base filename));
          idx = LastIndex base ''_''
      in if idx = - 1 then Inl (Errorf (''invalid baria filename: '' @ base))
         else let tsStr = drop (nat (idx + 1)) base
              in (case ParseInLocation Compact tsStr (TimezoneLocation cfg) of
                    Inl e \<Rightarrow> Inl (ParseError e)
                  | Inr t \<Rightarrow> Inr (Unix (Truncate t Minute))))"

text \<open>
  The loop over the lines of a BaRia file: a line is cut at the tabs; a line with fewer
  than two pieces, or whose value does not parse, is passed over.
\<close>

fun baria_lines :: "(string \<Rightarrow> 'f option) \<Rightarrow> string list \<Rightarrow> (string \<rightharpoonup> 'f) \<Rightarrow> (string \<rightharpoonup> 'f)" where
  "baria_lines pf [] valueMap = valueMap"
| "baria_lines pf (line # rest) valueMap =
     (let parts = Split line CHR 0x09
      in if length parts < 2 then baria_lines pf rest valueMap
         else let key = TrimSpace (parts ! 0);
                  valStr = TrimSpace (parts ! 1)
              in case pf valStr of
                   None \<Rightarrow> baria_lines pf rest valueMap
                 | Some v \<Rightarrow> baria_lines pf rest (valueMap(key \<mapsto> v)))"

text \<open>
  The loop over the metrics of a box, shared in form by both single-record loaders: the
  value found under the metric's name, or the integer 0.
\<close>

fun add_metrics :: "Metric list \<Rightarrow> (string \<rightharpoonup> 'f) \<Rightarrow> 'f SensorRecord \<Rightarrow> 'f SensorRecord" where
  "add_metrics [] valueMap doc = doc"
| "add_metrics (m # ms) valueMap doc =
     add_metrics ms valueMap
       (case valueMap (Name m) of
          Some v \<Rightarrow> doc(Code m \<mapsto> VFloat v)
        | None \<Rightarrow> doc(Code m \<mapsto> VInt 0))"

definition ProcessBariaFile ::
  "('w, 'f) externals \<Rightarrow> Config \<Rightarrow> string \<Rightarrow> string \<Rightarrow> ('w, 'f) state \<Rightarrow> (error + int) \<times> ('w, 'f) state" where
  "ProcessBariaFile X cfg filename content s =
     (let box = MatchBariaBox filename
      in case ParseBariaTimestampFromFilename cfg filename of
           Inl e \<Rightarrow> (Inl (Wrapped (''file '' @ filename) e), s)
         | Inr ts \<Rightarrow>
             let lines = Split (TrimSpace content) CHR 0x0A;
                 valueMap = baria_lines (ParseFloat X) lines Map.empty;
                 doc0 = [''_id'' \<mapsto> VInt ts, ''c'' \<mapsto> VInt (time_Now X (world s) div Second)]
             in (case box of
                   None \<Rightarrow> (Inl NilDereference, s)
                 | Some b \<Rightarrow>
                     let doc = add_metrics (BR_Metrics b) valueMap doc0
                     in (case InsertOne X (''sensor_data_'' @ BR_ID b) doc s of
                           (Some msg, s') \<Rightarrow>
                             if Contains msg ''duplicate key'' then (Inr 0, s')
                             else (Inl (External msg), s')
                         | (None, s') \<Rightarrow> (Inr 1, s'))))"

section \<open>FamilyB: the AmChua loader\<close>

definition IsAmChuaFile :: "string \<Rightarrow> bool" where
  "IsAmChuaFile filename = Contains filename ''HoAmChua_TramTT''"

definition parseFilenameForTimestamp :: "Config \<Rightarrow> string \<Rightarrow> error + int" where
  "parseFilenameForTimestamp cfg filename0 =
     (let filename = Base filename0;
          base = TrimSuffix (Base filename) (Ext filename)
      in if length base \<noteq> length ''20060102150405''
         then Inl (Errorf (''filename component '' @ base @ '' has incorrect length''))
         else case ParseInLocation Compact base (TimezoneLocation cfg) of
                Inl e \<Rightarrow> Inl (Wrapped (''failed to parse time string '' @ base) (ParseError e))
              | Inr t \<Rightarrow> Inr (Unix (Truncate t Minute)))"

text \<open>
  The loop over the lines of an AmChua file.  The result None is the early return of
  the loader when a value does not parse.
\<close>

fun amchua_lines :: "(string \<Rightarrow> 'f option) \<Rightarrow> string list \<Rightarrow> (string \<rightharpoonup> 'f) \<Rightarrow> (string \<rightharpoonup> 'f) option" where
  "amchua_lines pf [] valueMap = Some valueMap"
| "amchua_lines pf (line0 # rest) valueMap =
     (let line = TrimSpace line0
      in if line = [] then amchua_lines pf rest valueMap
         else let parts = Fields line
              in if length parts \<ge> 2
                 then let key = TrimSpace (parts ! 0)
                      in case pf (TrimSpace (parts ! 1)) of
                           None \<Rightarrow> None
                         | Some v \<Rightarrow> amchua_lines pf rest (valueMap(key \<mapsto> v))
                 else amchua_lines pf rest valueMap)"

text \<open>
  The loop over the boxes: one document and one insert per box; an insert that fails,
  with a duplicate key or otherwise, is logged and the loop goes on.
\<close>

fun amchua_boxes ::
  "('w, 'f) externals \<Rightarrow> int \<Rightarrow> int \<Rightarrow> (string \<rightharpoonup> 'f) \<Rightarrow> AmChuaBox list \<Rightarrow> int \<Rightarrow> ('w, 'f) state
     \<Rightarrow> int \<times> ('w, 'f) state" where
  "amchua_boxes X ts now valueMap [] insertedCount s = (insertedCount, s)"
| "amchua_boxes X ts now valueMap (box # rest) insertedCount s =
     (let doc = add_metrics (AC_Metrics box) valueMap [''_id'' \<mapsto> VInt ts, ''c'' \<mapsto> VInt now]
      in case InsertOne X (''sensor_data_'' @ AC_ID box) doc s of
           (Some msg, s') \<Rightarrow>
             if Contains msg ''duplicate key''
             then amchua_boxes X ts now valueMap rest insertedCount s'
             else amchua_boxes X ts now valueMap rest insertedCount s'
         | (None, s') \<Rightarrow> amchua_boxes X ts now valueMap rest (insertedCount + 1) s')"

definition ProcessAmChuaFile ::
  "('w, 'f) externals \<Rightarrow> Config \<Rightarrow> string \<Rightarrow> string \<Rightarrow> ('w, 'f) state \<Rightarrow> (error + int) \<times> ('w, 'f) state" where
  "ProcessAmChuaFile X cfg filename content s =
     (case parseFilenameForTimestamp cfg filename of
        Inl e \<Rightarrow> (Inl (Wrapped (''file '' @ filename) e), s)
      | Inr ts \<Rightarrow>
          let lines = Split (TrimSpace content) CHR 0x0A
          in (case amchua_lines (ParseFloat X) lines Map.empty of
                None \<Rightarrow> (Inr 0, s)
              | Some valueMap \<Rightarrow>
                  let now = time_Now X (world s) div Second
                  in (case amchua_boxes X ts now valueMap AmChuaBoxes 0 s of
                        (insertedCount, s') \<Rightarrow> (Inr insertedCount, s'))))"

section \<open>FamilyC: the tabular loader\<close>

text \<open>
  The loop over the cells of a row from the third on, each with its column name; it
  stops at the shorter of the row and the header.
\<close>

fun row_cells :: "(string \<Rightarrow> 'f option) \<Rightarrow> string list \<Rightarrow> string list \<Rightarrow> 'f SensorRecord \<Rightarrow> 'f SensorRecord" where
  "row_cells pf (cell # cells) (k # ks) record =
     (case pf cell of
        None \<Rightarrow> row_cells pf cells ks record
      | Some v \<Rightarrow>
          row_cells pf cells ks
            (case AliasToCode k of
               Some field \<Rightarrow> record(field \<mapsto> VFloat v)
             | None \<Rightarrow> record(k \<mapsto> VFloat v)))"
| "row_cells pf cells ks record = record"

fun ExtractObject_rows ::
  "(string \<Rightarrow> 'f option) \<Rightarrow> Config \<Rightarrow> string list \<Rightarrow> string list list \<Rightarrow> 'f SensorRecord list" where
  "ExtractObject_rows pf cfg columns [] = []"
| "ExtractObject_rows pf cfg columns (row # data) =
     (if length row < 2 then ExtractObject_rows pf cfg columns data
      else case ParseInLocation Dashed (row ! 0) (TimezoneLocation cfg) of
             Inl e \<Rightarrow> ExtractObject_rows pf cfg columns data
           | Inr t \<Rightarrow>
               let ts = Unix t
               in (case pf (row ! 1) of
                     None \<Rightarrow> ExtractObject_rows pf cfg columns data
                   | Some n \<Rightarrow>
                       row_cells pf (drop 2 row) (drop 2 columns) [''_id'' \<mapsto> VInt ts, ''n'' \<mapsto> VFloat n]
                         # ExtractObject_rows pf cfg columns data))"

text \<open>The result of ExtractObject is the device identity and the records.\<close>

definition ExtractObject ::
  "(string \<Rightarrow> 'f option) \<Rightarrow> Config \<Rightarrow> string \<Rightarrow> string list \<Rightarrow> string list \<Rightarrow> string list list
     \<Rightarrow> error + (string \<times> 'f SensorRecord list)" where
  "ExtractObject pf cfg filename meta columns data =
     (if length meta < 4
      then Inl (Errorf (''file '' @ filename @ '': meta data has insufficient fields''))
      else Inr (meta ! 2 @ ''_'' @ meta ! 3, ExtractObject_rows pf cfg columns data))"

definition ExtractData ::
  "('w, 'f) externals \<Rightarrow> Config \<Rightarrow> string \<Rightarrow> string \<Rightarrow> error + (string \<times> 'f SensorRecord list)" where
  "ExtractData X cfg filename content =
     (let lines = Split (TrimSpace content) CHR 0x0A
      in if length lines < 5
         then Inl (Errorf (''file '' @ filename @ '': CSV has insufficient lines''))
         else case csv_Read X (lines ! 0) of
                Inl msg \<Rightarrow> Inl (Wrapped (''file '' @ filename @ '': failed to parse meta line'') (External msg))
              | Inr meta \<Rightarrow>
                  (case csv_Read X (lines ! 1) of
                     Inl msg \<Rightarrow> Inl (Wrapped (''file '' @ filename @ '': failed to parse columns line'') (External msg))
                   | Inr columns \<Rightarrow>
                       (case csv_ReadAll X (Join (drop 4 lines) CHR 0x0A) of
                          Inl msg \<Rightarrow> Inl (Wrapped (''file '' @ filename @ '': failed to parse CSV records'') (External msg))
                        | Inr records \<Rightarrow> ExtractObject (ParseFloat X) cfg filename meta columns records)))"

section \<open>The writer\<close>

text \<open>
  The argument is the value found under a key of a document; None is the nil of a
  missing key.
\<close>

definition GetInt64FromInterface :: "('w, 'f) externals \<Rightarrow> 'f bval option \<Rightarrow> error + int" where
  "GetInt64FromInterface X v =
     (case v of
        Some (VInt val) \<Rightarrow> Inr val
      | Some (VFloat val) \<Rightarrow> Inr (float_to_int64 X val)
      | _ \<Rightarrow> Inl (Errorf ''unsupported type for int64 conversion''))"

definition InsertBatch ::
  "('w, 'f) externals \<Rightarrow> string \<Rightarrow> 'f SensorRecord list \<Rightarrow> ('w, 'f) state \<Rightarrow> (error + int) \<times> ('w, 'f) state" where
  "InsertBatch X col data s =
     (if length data < 1 then (Inr 0, s)
      else case InsertMany X col data s of
             (Inl msg, s') \<Rightarrow>
               if Contains msg ''E11000 duplicate key error'' then (Inr 0, s')
               else (Inl (External msg), s')
           | (Inr n, s') \<Rightarrow> (Inr (int n), s'))"

text \<open>
  The batch loop, from index i with the count so far.  Go returns the count and the
  error together: the result is the count with the error of the batch that failed, if
  one did.
\<close>

function InsertIgnoreDuplicate_from ::
  "('w, 'f) externals \<Rightarrow> string \<Rightarrow> 'f SensorRecord list \<Rightarrow> nat \<Rightarrow> int \<Rightarrow> ('w, 'f) state
     \<Rightarrow> (int \<times> error option) \<times> ('w, 'f) state" where
  "InsertIgnoreDuplicate_from X col data i inserted s =
     (if i < length data
      then let e = (if i + BATCH_SIZE > length data then length data else i + BATCH_SIZE);
               arr = take (e - i) (drop i data)
           in case InsertBatch X col arr s of
                (Inl err, s') \<Rightarrow> ((inserted, Some err), s')
              | (Inr count, s') \<Rightarrow> InsertIgnoreDuplicate_from X col data (i + BATCH_SIZE) (inserted + count) s'
      else ((inserted, None), s))"
  by pat_completeness auto
termination
  by (relation "measure (\<lambda>(X, col, data, i, inserted, s). length data - i)")
     (auto simp: BATCH_SIZE_def)

definition InsertIgnoreDuplicate ::
  "('w, 'f) externals \<Rightarrow> string \<Rightarrow> 'f SensorRecord list \<Rightarrow> ('w, 'f) state
     \<Rightarrow> (int \<times> error option) \<times> ('w, 'f) state" where
  "InsertIgnoreDuplicate X col data s = InsertIgnoreDuplicate_from X col data 0 0 s"

definition FindBoxByDeviceID ::
  "('w, 'f) externals \<Rightarrow> string \<Rightarrow> ('w, 'f) state \<Rightarrow> (error + Box) \<times> ('w, 'f) state" where
  "FindBoxByDeviceID X deviceID s =
     (case FindBox X deviceID s of
        (Found box, s') \<Rightarrow> (Inr box, s')
      | (ErrNoDocuments, s') \<Rightarrow> (Inl (Errorf (''unknown device_id '' @ deviceID)), s')
      | (FindFailed msg, s') \<Rightarrow>
          (Inl (Wrapped (''failed to find box for device_id '' @ deviceID) (External msg)), s'))"

text \<open>The result Inr None is Go's nil record with a nil error: the collection is empty.\<close>

definition GetLatestRecord ::
  "('w, 'f) externals \<Rightarrow> string \<Rightarrow> ('w, 'f) state \<Rightarrow> (error + 'f SensorRecord option) \<times> ('w, 'f) state" where
  "GetLatestRecord X col s =
     (case FindLatest X col s of
        (Found maxTs, s') \<Rightarrow> (Inr (Some maxTs), s')
      | (ErrNoDocuments, s') \<Rightarrow> (Inr None, s')
      | (FindFailed msg, s') \<Rightarrow> (Inl (Wrapped ''failed to query latest record'' (External msg)), s'))"

fun FilterNewRecords :: "('w, 'f) externals \<Rightarrow> 'f SensorRecord list \<Rightarrow> int \<Rightarrow> 'f SensorRecord list" where
  "FilterNewRecords X [] maxID = []"
| "FilterNewRecords X (r # records) maxID =
     (case GetInt64FromInterface X (r ''_id'') of
        Inl err \<Rightarrow> FilterNewRecords X records maxID
      | Inr rID \<Rightarrow>
          if rID > maxID then r # FilterNewRecords X records maxID
          else FilterNewRecords X records maxID)"

definition InsertSensorRecords ::
  "('w, 'f) externals \<Rightarrow> string \<Rightarrow> string \<Rightarrow> Box \<Rightarrow> 'f SensorRecord list \<Rightarrow> ('w, 'f) state
     \<Rightarrow> (error + int) \<times> ('w, 'f) state" where
  "InsertSensorRecords X filename deviceID box records s =
     (let colName = ''sensor_data_'' @ Box_ID box
      in case GetLatestRecord X colName s of
           (Inl err, s1) \<Rightarrow> (Inl (Wrapped (''file '' @ filename) err), s1)
         | (Inr maxTs, s1) \<Rightarrow>
             let toInsert =
                   (case maxTs of
                      Some m \<Rightarrow>
                        (case GetInt64FromInterface X (m ''_id'') of
                           Inl err \<Rightarrow> records
                         | Inr maxID \<Rightarrow> FilterNewRecords X records maxID)
                    | None \<Rightarrow> records)
             in (case InsertIgnoreDuplicate X colName toInsert s1 of
                   ((inserted, Some err), s2) \<Rightarrow>
                     (Inl (Wrapped (''file '' @ filename @ '': failed to insert records into '' @ colName) err), s2)
                 | ((inserted, None), s2) \<Rightarrow> (Inr inserted, s2)))"

section \<open>The pipeline for one file\<close>

text \<open>
  Opening the storage client, opening the object and copying its bytes are one read
  call here, which gives the content or the error of whichever step failed.
\<close>

definition ProcessCSVFile ::
  "('w, 'f) externals \<Rightarrow> Config \<Rightarrow> string \<Rightarrow> string \<Rightarrow> ('w, 'f) state \<Rightarrow> (error + int) \<times> ('w, 'f) state" where
  "ProcessCSVFile X cfg bucket filename s =
     (case ReadObject X bucket filename s of
        (Inl msg, s1) \<Rightarrow>
          (Inl (Wrapped (''file '' @ filename @ '': failed to read GCS file'') (External msg)), s1)
      | (Inr content, s1) \<Rightarrow>
          if IsAmChuaFile filename then ProcessAmChuaFile X cfg filename content s1
          else if IsBariaFile filename then ProcessBariaFile X cfg filename content s1
          else (case ExtractData X cfg filename content of
                  Inl err \<Rightarrow> (Inl (Wrapped (''file '' @ filename) err), s1)
                | Inr (deviceID, records) \<Rightarrow>
                    (case FindBoxByDeviceID X deviceID s1 of
                       (Inl err, s2) \<Rightarrow> (Inr 0, s2)
                     | (Inr box, s2) \<Rightarrow>
                         (case InsertSensorRecords X filename deviceID box records s2 of
                            (Inl err, s3) \<Rightarrow> (Inl (Wrapped (''file '' @ filename) err), s3)
                          | (Inr inserted, s3) \<Rightarrow> (Inr inserted, s3)))))"

definition copyToFailedFolder ::
  "('w, 'f) externals \<Rightarrow> string \<Rightarrow> string \<Rightarrow> ('w, 'f) state \<Rightarrow> error option \<times> ('w, 'f) state" where
  "copyToFailedFolder X bucket filename s =
     (case CopyObject X bucket filename (''load_failed/'' @ filename) s of
        (Some msg, s') \<Rightarrow> (Some (Wrapped ''failed to copy to load_failed folder'' (External msg)), s')
      | (None, s') \<Rightarrow> (None, s'))"

section \<open>File admission\<close>

text \<open>A compiled regular expression is the predicate of the strings it matches.\<close>

type_synonym Regexp = "string \<Rightarrow> bool"

definition MatchString :: "Regexp \<Rightarrow> string \<Rightarrow> bool" where
  "MatchString pattern s = pattern s"

record FilePattern =
  AllowPatterns :: "Regexp list"
  IgnorePatterns :: "Regexp list"

definition parsePatternString :: "string \<Rightarrow> string list" where
  "parsePatternString patternStr =
     (if patternStr = [] then []
      else filter (\<lambda>p. p \<noteq> []) (map TrimSpace (Split patternStr CHR '';'')))"

text \<open>
  Compiling the patterns in order; \<^verbatim>\<open>regexp.Compile\<close> is external.  None is the
  fatal exit of the process on a pattern that does not compile.
\<close>

fun compile_patterns :: "(string \<Rightarrow> Regexp option) \<Rightarrow> string list \<Rightarrow> Regexp list option" where
  "compile_patterns compile [] = Some []"
| "compile_patterns compile (patternStr # rest) =
     (case compile (TrimSpace patternStr) of
        None \<Rightarrow> None
      | Some compiled \<Rightarrow>
          (case compile_patterns compile rest of
             None \<Rightarrow> None
           | Some patterns \<Rightarrow> Some (compiled # patterns)))"

text \<open>The argument is the value of the variable ALLOW_PATTERNS, empty when unset.\<close>

definition loadAllowPatterns :: "(string \<Rightarrow> Regexp option) \<Rightarrow> string \<Rightarrow> Regexp list option" where
  "loadAllowPatterns compile patternStr =
     (if patternStr = [] then Some []
      else let patternStrs = parsePatternString patternStr
           in if length patternStrs = 0 then Some []
              else compile_patterns compile patternStrs)"

definition loadIgnorePatterns :: "(string \<Rightarrow> Regexp option) \<Rightarrow> string \<Rightarrow> Regexp list option" where
  "loadIgnorePatterns compile patternStr =
     (if patternStr = [] then Some []
      else let patternStrs = parsePatternString patternStr
           in if length patternStrs = 0 then Some []
              else compile_patterns compile patternStrs)"

text \<open>
  The argument is the value of \<^verbatim>\<open>GlobalFilePattern\<close>, a pointer: None is nil.
\<close>

definition ShouldProcessFile :: "FilePattern option \<Rightarrow> string \<Rightarrow> bool" where
  "ShouldProcessFile gpat filename =
     (case gpat of
        None \<Rightarrow> False
      | Some fp \<Rightarrow>
          if length (AllowPatterns fp) < 1 then False
          else if length (IgnorePatterns fp) > 0
                  \<and> list_ex (\<lambda>pattern. MatchString pattern filename) (IgnorePatterns fp)
          then False
          else if list_ex (\<lambda>pattern. MatchString pattern filename) (AllowPatterns fp) then True
          else False)"

section \<open>The age of an event\<close>

text \<open>
  The first argument is the value of the variable MAX_EVENT_AGE_SECONDS, empty when
  unset, the second the value of \<^verbatim>\<open>EVENT_MAX_AGE_SECONDS\<close> before the call; the result
  is its value after.
\<close>

definition initEventAgeConfig :: "string \<Rightarrow> int \<Rightarrow> int" where
  "initEventAgeConfig maxAgeStr current =
     (if maxAgeStr = [] then current
      else case ParseInt maxAgeStr of
             None \<Rightarrow> current
           | Some maxAge \<Rightarrow>
               if maxAge \<noteq> 0 \<and> maxAge < MIN_EVENT_AGE_SECONDS then MIN_EVENT_AGE_SECONDS
               else maxAge)"

text \<open>A 64-bit signed result of an arithmetic operation: the value wrapped around.\<close>

definition int64 :: "int \<Rightarrow> int" where
  "int64 x = (x + 2 ^ 63) mod 2 ^ 64 - 2 ^ 63"

definition maxDuration :: int where
  "maxDuration = 2 ^ 63 - 1"

definition minDuration :: int where
  "minDuration = - (2 ^ 63)"

text \<open>
  \<^verbatim>\<open>time.Since(t)\<close> at a clock reading of now nanoseconds after the Unix epoch: the
  difference, held at the largest or smallest Duration when it does not fit.
\<close>

definition Since :: "int \<Rightarrow> Time \<Rightarrow> int" where
  "Since now t =
     (let d = now - (unix_sec t * Second + nsec t)
      in if d > maxDuration then maxDuration
         else if d < minDuration then minDuration
         else d)"

definition IsZero :: "Time \<Rightarrow> bool" where
  "IsZero t = (unix_sec t = - unixToInternal \<and> nsec t = 0)"

text \<open>
  The first argument is the value of \<^verbatim>\<open>EVENT_MAX_AGE_SECONDS\<close>, the second the clock.
  The product of the Duration conversion and \<^verbatim>\<open>time.Second\<close> is a 64-bit product.
\<close>

definition isEventTooOld :: "int \<Rightarrow> int \<Rightarrow> Time \<Rightarrow> bool" where
  "isEventTooOld EVENT_MAX_AGE_SECONDS now eventTime =
     (if EVENT_MAX_AGE_SECONDS = 0 then False
      else let age = Since now eventTime;
               maxAge = int64 (EVENT_MAX_AGE_SECONDS * Second)
           in age > maxAge)"

section \<open>The event handler\<close>

record StorageObjectData =
  SO_Name :: string
  SO_Bucket :: string
  SO_Metageneration :: string
  SO_TimeCreated :: string
  SO_Updated :: string

text \<open>
  A cloud event: its identifier, type and time, and its payload decoded
  (\<^verbatim>\<open>ce.DataAs\<close>), or the error of the decoding.
\<close>

record Event =
  ce_ID :: string
  ce_Type :: string
  ce_Time :: Time
  ce_Data :: "string + StorageObjectData"

text \<open>
  The handler returns an error or nil (None).  A nil dereference in the processing is
  a panic that the handler does not recover: it comes out as NilDereference.
\<close>

definition helloGCS ::
  "('w, 'f) externals \<Rightarrow> Config \<Rightarrow> FilePattern option \<Rightarrow> int \<Rightarrow> Event \<Rightarrow> ('w, 'f) state
     \<Rightarrow> error option \<times> ('w, 'f) state" where
  "helloGCS X cfg gpat EVENT_MAX_AGE_SECONDS ce s =
     (let eventTime = ce_Time ce
      in if \<not> IsZero eventTime \<and> isEventTooOld EVENT_MAX_AGE_SECONDS (time_Now X (world s)) eventTime
         then (None, s)
         else case ce_Data ce of
                Inl msg \<Rightarrow> (Some (Wrapped ''failed to parse event data'' (External msg)), s)
              | Inr data \<Rightarrow>
                  let filename = SO_Name data;
                      bucketName = SO_Bucket data
                  in if filename = [] then (Some (Errorf ''missing file name in event''), s)
                     else if bucketName = [] then (Some (Errorf ''missing bucket in event''), s)
                     else if \<not> ShouldProcessFile gpat filename then (None, s)
                     else (case ProcessCSVFile X cfg bucketName filename s of
                             (Inl err, s1) \<Rightarrow>
                               if err = NilDereference then (Some NilDereference, s1)
                               else (case copyToFailedFolder X bucketName filename s1 of
                                       (copyErr, s2) \<Rightarrow> (None, s2))
                           | (Inr n, s1) \<Rightarrow> (None, s1)))"

section \<open>A test double of the external services\<close>

text \<open>
  An in-memory world for running the loader on concrete inputs: the collections of
  the store, the objects of the bucket and the clock.  The store refuses a document
  whose key is in the collection already, with the message of a duplicate key.  The
  float64 values are rationals and only plain decimals parse.
\<close>

record mem =
  m_docs :: "string \<Rightarrow> rat SensorRecord list"
  m_files :: "string \<Rightarrow> string option"
  m_clock :: int

definition demo_ParseFloat :: "string \<Rightarrow> rat option" where
  "demo_ParseFloat s =
     (let ip = takeWhile isDigit s;
          rest = dropWhile isDigit s
      in if ip = [] then None
         else if rest = [] then Some (of_int (foldl (\<lambda>n c. n * 10 + digit c) 0 ip))
         else if hd rest = CHR ''.'' \<and> tl rest \<noteq> [] \<and> list_all isDigit (tl rest)
         then Some (of_int (foldl (\<lambda>n c. n * 10 + digit c) 0 (ip @ tl rest)) / 10 ^ length (tl rest))
         else None)"

definition has_key :: "rat bval option \<Rightarrow> rat SensorRecord list \<Rightarrow> bool" where
  "has_key k docs = list_ex (\<lambda>d. d ''_id'' = k) docs"

definition mem_InsertOne :: "string \<Rightarrow> rat SensorRecord \<Rightarrow> mem \<Rightarrow> string option \<times> mem" where
  "mem_InsertOne col doc w =
     (if has_key (doc ''_id'') (m_docs w col)
      then (Some (''E11000 duplicate key error collection: '' @ col), w)
      else (None, w\<lparr>m_docs := (m_docs w)(col := m_docs w col @ [doc])\<rparr>))"

text \<open>An unordered bulk insert: every document that is not a duplicate goes in.\<close>

fun mem_insert_each :: "rat SensorRecord list \<Rightarrow> rat SensorRecord list \<Rightarrow> rat SensorRecord list \<times> nat" where
  "mem_insert_each [] stored = (stored, 0)"
| "mem_insert_each (d # ds) stored =
     (if has_key (d ''_id'') stored then mem_insert_each ds stored
      else (case mem_insert_each ds (stored @ [d]) of (stored', n) \<Rightarrow> (stored', Suc n)))"

definition mem_InsertMany :: "string \<Rightarrow> rat SensorRecord list \<Rightarrow> mem \<Rightarrow> (string + nat) \<times> mem" where
  "mem_InsertMany col docs w =
     (case mem_insert_each docs (m_docs w col) of
        (stored', n) \<Rightarrow>
          (if n < length docs
           then Inl (''bulk write exception: write errors: [E11000 duplicate key error collection: '' @ col @ '']'')
           else Inr n,
           w\<lparr>m_docs := (m_docs w)(col := stored')\<rparr>))"

definition key_of :: "rat SensorRecord \<Rightarrow> int" where
  "key_of d = (case d ''_id'' of Some (VInt k) \<Rightarrow> k | _ \<Rightarrow> 0)"

definition mem_FindLatest :: "string \<Rightarrow> mem \<Rightarrow> rat SensorRecord find_result \<times> mem" where
  "mem_FindLatest col w =
     (case m_docs w col of
        [] \<Rightarrow> (ErrNoDocuments, w)
      | d # ds \<Rightarrow> (Found (foldl (\<lambda>a b. if key_of a < key_of b then b else a) d ds), w))"

definition mem_FindBox :: "string \<Rightarrow> mem \<Rightarrow> Box find_result \<times> mem" where
  "mem_FindBox deviceID w =
     (if deviceID = ''CR300_19531''
      then (Found \<lparr>Box_ID = ''BOX1'', Box_DeviceID = deviceID\<rparr>, w)
      else (ErrNoDocuments, w))"

definition mem_read :: "string \<Rightarrow> string \<Rightarrow> mem \<Rightarrow> (string + string) \<times> mem" where
  "mem_read bucket name w =
     (case m_files w name of
        None \<Rightarrow> (Inl ''storage: object doesn't exist'', w)
      | Some content \<Rightarrow> (Inr content, w))"

definition mem_copy :: "string \<Rightarrow> string \<Rightarrow> string \<Rightarrow> mem \<Rightarrow> string option \<times> mem" where
  "mem_copy bucket src dst w =
     (case m_files w src of
        None \<Rightarrow> (Some ''storage: object doesn't exist'', w)
      | Some content \<Rightarrow> (None, w\<lparr>m_files := (m_files w)(dst \<mapsto> content)\<rparr>))"

text \<open>A line of comma-separated fields without quotes.\<close>

definition demo_csv_Read :: "string \<Rightarrow> string + string list" where
  "demo_csv_Read line = (if line = [] then Inl ''EOF'' else Inr (Split line CHR '',''))"

definition demo_csv_ReadAll :: "string \<Rightarrow> string + string list list" where
  "demo_csv_ReadAll content =
     Inr (map (\<lambda>line. Split line CHR '','') (filter (\<lambda>line. line \<noteq> []) (Split content CHR 0x0A)))"

definition demo :: "(mem, rat) externals" where
  "demo =
     \<lparr>ParseFloat = demo_ParseFloat,
      float_to_int64 = (\<lambda>q. \<bar>fst (quotient_of q)\<bar> div snd (quotient_of q) * sgn (fst (quotient_of q))),
      csv_Read = demo_csv_Read,
      csv_ReadAll = demo_csv_ReadAll,
      time_Now = (\<lambda>w. m_clock w),
      gcs_read = mem_read,
      gcs_copy = mem_copy,
      mongo_InsertOne = mem_InsertOne,
      mongo_InsertMany = mem_InsertMany,
      mongo_FindLatest = mem_FindLatest,
      mongo_FindBox = mem_FindBox\<rparr>"



definition empty_mem :: mem where
  "empty_mem = \<lparr>m_docs = (\<lambda>col. []), m_files = Map.empty, m_clock = 1766900000 * Second\<rparr>"

definition start :: "mem \<Rightarrow> (mem, rat) state" where
  "start w = \<lparr>world = w, calls = []\<rparr>"

definition config7 :: Config where
  "config7 = \<lparr>Debug = False, TimezoneOffset = 7, TimezoneLocation = 7 * 3600\<rparr>"

text \<open>The primary keys of a list of records, and the documents of the inserts in a list of calls.\<close>

definition ids_of :: "'f SensorRecord list \<Rightarrow> 'f bval option list" where
  "ids_of rs = map (\<lambda>r. r ''_id'') rs"

text \<open>The values under one key of a list of records.\<close>

definition values_at :: "string \<Rightarrow> 'f SensorRecord list \<Rightarrow> 'f bval option list" where
  "values_at k rs = map (\<lambda>r. r k) rs"

text \<open>The documents handed to the store by a list of calls, in order.\<close>

fun docs_of_call :: "'f call \<Rightarrow> 'f SensorRecord list" where
  "docs_of_call (InsertOneCall col doc) = [doc]"
| "docs_of_call (InsertManyCall col docs) = docs"
| "docs_of_call c = []"

definition docs_passed :: "'f call list \<Rightarrow> 'f SensorRecord list" where
  "docs_passed cs = concat (map docs_of_call cs)"

text \<open>
  A line with a value that does not parse: for the BaRia loader a line of at least two
  tab-separated pieces, for the AmChua loader a line of at least two fields.
\<close>

definition baria_bad_line :: "(string \<Rightarrow> 'f option) \<Rightarrow> string \<Rightarrow> bool" where
  "baria_bad_line pf line =
     (length (Split line CHR 0x09) \<ge> 2 \<and> pf (TrimSpace (Split line CHR 0x09 ! 1)) = None)"

definition amchua_bad_line :: "(string \<Rightarrow> 'f option) \<Rightarrow> string \<Rightarrow> bool" where
  "amchua_bad_line pf line =
     (TrimSpace line \<noteq> [] \<and> length (Fields (TrimSpace line)) \<ge> 2
      \<and> pf (TrimSpace (Fields (TrimSpace line) ! 1)) = None)"

text \<open>The metric codes of a box are distinct and none is a reserved key.\<close>

definition metrics_ok :: "Metric list \<Rightarrow> bool" where
  "metrics_ok ms = (distinct (map Code ms) \<and> ''_id'' \<notin> Code ` set ms \<and> ''c'' \<notin> Code ` set ms)"

text \<open>A pattern that matches the strings with a given ending.\<close>

definition suffix_pattern :: "string \<Rightarrow> Regexp" where
  "suffix_pattern suf = (\<lambda>s. HasSuffix s suf)"

text \<open>Inputs for running the loader.\<close>

definition baria_name :: string where
  "baria_name = ''up/HoSongRay_KenhSongRay/x_20251227200009.txt''"

definition baria_content :: string where
  "baria_content = ''MNK'' @ [CHR 0x09] @ ''12.5'' @ [CHR 0x0A] @ ''Domocong'' @ [CHR 0x09] @ ''3.0''"

definition baria_content_bad :: string where
  "baria_content_bad = ''MNK'' @ [CHR 0x09] @ ''abc'' @ [CHR 0x0A] @ ''Domocong'' @ [CHR 0x09] @ ''3.0''"

definition amchua_name :: string where
  "amchua_name = ''upload/HoAmChua_TramTT/2025/11/29/20251129190030.txt''"

definition amchua_content :: string where
  "amchua_content = ''rain_1 2.5'' @ [CHR 0x0A] @ ''drain_2 4''"

definition amchua_content_bad :: string where
  "amchua_content_bad = ''rain_1 2.5'' @ [CHR 0x0A] @ ''waterup x''"

definition other_name :: string where
  "other_name = ''up/other/x_20251227200009.txt''"

definition recent_data :: StorageObjectData where
  "recent_data = \<lparr>SO_Name = ''a.csv'', SO_Bucket = ''b'', SO_Metageneration = ''1'',
                   SO_TimeCreated = [], SO_Updated = []\<rparr>"

text \<open>An event stamped one second before the clock of the in-memory world.\<close>

definition recent_event :: Event where
  "recent_event =
     \<lparr>ce_ID = ''1'', ce_Type = ''google.cloud.storage.object.v1.finalized'',
      ce_Time = \<lparr>unix_sec = 1766899999, nsec = 0\<rparr>,
      ce_Data = Inr recent_data\<rparr>"

text \<open>
  The message of the store for a duplicate primary key carries the server's error code
  and text.
\<close>

definition is_duplicate_key_error :: "string \<Rightarrow> bool" where
  "is_duplicate_key_error msg = Contains msg ''E11000 duplicate key error''"

text \<open>A record whose key converts to an integer greater than the watermark.\<close>

definition newer_than :: "('w, 'f) externals \<Rightarrow> int \<Rightarrow> 'f SensorRecord \<Rightarrow> bool" where
  "newer_than X maxID r =
     (case GetInt64FromInterface X (r ''_id'') of Inl err \<Rightarrow> False | Inr rID \<Rightarrow> rID > maxID)"



definition rec_with_id :: "int \<Rightarrow> rat SensorRecord" where
  "rec_with_id k = [''_id'' \<mapsto> VInt k, ''n'' \<mapsto> VFloat 1]"


definition world100 :: mem where
  "world100 = empty_mem\<lparr>m_docs := (\<lambda>col. if col = ''sensor_data_BOX1'' then [rec_with_id 100] else [])\<rparr>"

definition box1 :: Box where
  "box1 = \<lparr>Box_ID = ''BOX1'', Box_DeviceID = ''CR300_19531''\<rparr>"

definition four_records :: "rat SensorRecord list" where
  "four_records = [rec_with_id 99, rec_with_id 100, rec_with_id 101, rec_with_id 102]"



definition csv_patterns :: "FilePattern option" where
  "csv_patterns = Some \<lparr>AllowPatterns = [suffix_pattern ''.csv''], IgnorePatterns = []\<rparr>"

text \<open>The answers of the store to the inserts of the AmChua loop, one for each box, in order.\<close>

fun amchua_answers ::
  "('w, 'f) externals \<Rightarrow> int \<Rightarrow> int \<Rightarrow> (string \<rightharpoonup> 'f) \<Rightarrow> AmChuaBox list \<Rightarrow> ('w, 'f) state
     \<Rightarrow> string option list" where
  "amchua_answers X ts now valueMap [] s = []"
| "amchua_answers X ts now valueMap (box # rest) s =
     (case InsertOne X (''sensor_data_'' @ AC_ID box)
             (add_metrics (AC_Metrics box) valueMap [''_id'' \<mapsto> VInt ts, ''c'' \<mapsto> VInt now]) s of
        (r, s') \<Rightarrow> r # amchua_answers X ts now valueMap rest s')"

text \<open>The values read from the lines of the AmChua file.\<close>

definition amchua_values :: "string \<rightharpoonup> rat" where
  "amchua_values =
     (case amchua_lines demo_ParseFloat (Split (TrimSpace amchua_content) CHR 0x0A) Map.empty of
        Some valueMap \<Rightarrow> valueMap
      | None \<Rightarrow> Map.empty)"

text \<open>A store that holds the key of the AmChua file for the first box only.\<close>

definition one_taken :: "(mem, rat) state" where
  "one_taken =
     start (empty_mem\<lparr>m_docs := (\<lambda>col. if col = ''sensor_data_P7IBJJ87''
                                          then [[''_id'' \<mapsto> VInt 1764417600]] else [])\<rparr>)"




section \<open>Timestamps\<close>

lemma digit_range: "isDigit c \<Longrightarrow> 0 \<le> digit c \<and> digit c \<le> 9"
  by (auto simp: isDigit_def digit_def)

lemma digits_value_bound:
  "list_all isDigit ds \<Longrightarrow> 0 \<le> n \<Longrightarrow>
   0 \<le> foldl (\<lambda>n c. n * 10 + digit c) n ds \<and>
   foldl (\<lambda>n c. n * 10 + digit c) n ds < (n + 1) * 10 ^ length ds"
proof (induction ds arbitrary: n)
  case Nil
  then show ?case by simp
next
  case (Cons c ds)
  from Cons.prems have d: "0 \<le> digit c" "digit c \<le> 9" and rest: "list_all isDigit ds"
    using digit_range by auto
  have n0: "0 \<le> n * 10 + digit c" using Cons.prems d by simp
  from Cons.IH [OF rest n0]
  have ih: "0 \<le> foldl (\<lambda>n c. n * 10 + digit c) (n * 10 + digit c) ds"
    "foldl (\<lambda>n c. n * 10 + digit c) (n * 10 + digit c) ds < (n * 10 + digit c + 1) * 10 ^ length ds"
    by auto
  have "n * 10 + digit c + 1 \<le> (n + 1) * 10" using d by simp
  then have "(n * 10 + digit c + 1) * 10 ^ length ds \<le> ((n + 1) * 10) * (10::int) ^ length ds"
    by (rule mult_right_mono) simp
  with ih have "foldl (\<lambda>n c. n * 10 + digit c) (n * 10 + digit c) ds < ((n + 1) * 10) * (10::int) ^ length ds"
    by linarith
  moreover have "((n + 1) * 10) * (10::int) ^ length ds = (n + 1) * 10 ^ length (c # ds)"
    by simp
  ultimately have "foldl (\<lambda>n c. n * 10 + digit c) (n * 10 + digit c) ds < (n + 1) * 10 ^ length (c # ds)"
    by (simp only:)
  with ih(1) show ?case by simp
qed

text \<open>The fraction of a second that the parser reads is less than a second.\<close>

lemma frac_seconds_range:
  assumes "frac_seconds s = (ns, r)"
  shows "0 \<le> ns \<and> ns < Second"
proof (cases "\<exists>a b rest. s = a # b # rest \<and> (a = CHR ''.'' \<or> a = CHR '','') \<and> isDigit b")
  case True
  then obtain a b rest where s: "s = a # b # rest" and ab: "a = CHR ''.'' \<or> a = CHR '',''" "isDigit b"
    by blast
  define used where "used = take 9 (takeWhile isDigit (b # rest))"
  have all: "list_all isDigit used"
    unfolding used_def list_all_iff by (auto dest: in_set_takeD set_takeWhileD)
  have len: "length used \<le> 9" by (simp add: used_def)
  have ns: "ns = foldl (\<lambda>n c. n * 10 + digit c) 0 used * 10 ^ (9 - length used)"
    using assms s ab by (auto simp: frac_seconds_def used_def Let_def)
  from digits_value_bound [OF all, of 0]
  have v: "0 \<le> foldl (\<lambda>n c. n * 10 + digit c) 0 used"
    "foldl (\<lambda>n c. n * 10 + digit c) 0 used < 10 ^ length used" by auto
  have "foldl (\<lambda>n c. n * 10 + digit c) 0 used * 10 ^ (9 - length used)
        < 10 ^ length used * (10::int) ^ (9 - length used)"
    using v by (intro mult_strict_right_mono) auto
  also have "\<dots> = 10 ^ (length used + (9 - length used))" by (simp only: power_add)
  also have "\<dots> = 10 ^ 9" using len by simp
  finally show ?thesis using v ns by (simp add: Second_def)
next
  case False
  then have "frac_seconds s = (0, s)"
    by (auto simp: frac_seconds_def split: list.splits)
  with assms show ?thesis by (simp add: Second_def)
qed

lemma frac_seconds_fst: "0 \<le> fst (frac_seconds s)" "fst (frac_seconds s) < Second"
  using frac_seconds_range [of s "fst (frac_seconds s)" "snd (frac_seconds s)"] by simp_all

lemma parse_clock_cases:
  "case parse_clock l y mo d s of Inl e \<Rightarrow> True
   | Inr f \<Rightarrow> 0 \<le> f_sec f \<and> f_sec f < 60 \<and> 0 \<le> f_nsec f \<and> f_nsec f < Second"
  unfolding parse_clock_def and_then_def
  by (simp add: case_prod_beta frac_seconds_fst split: sum.split)

lemma parse_clock_range:
  assumes "parse_clock l y mo d s = Inr f"
  shows "0 \<le> f_sec f \<and> f_sec f < 60 \<and> 0 \<le> f_nsec f \<and> f_nsec f < Second"
  using parse_clock_cases [of l y mo d s] assms by simp

lemma parse_fields_cases:
  "case parse_fields l s of Inl e \<Rightarrow> True
   | Inr f \<Rightarrow> 0 \<le> f_sec f \<and> f_sec f < 60 \<and> 0 \<le> f_nsec f \<and> f_nsec f < Second"
  unfolding parse_fields_def and_then_def
  by (simp add: case_prod_beta parse_clock_range split: sum.split)

lemma parse_fields_range:
  assumes "parse_fields l s = Inr f"
  shows "0 \<le> f_sec f \<and> f_sec f < 60 \<and> 0 \<le> f_nsec f \<and> f_nsec f < Second"
  using parse_fields_cases [of l s] assms by simp

text \<open>
  Truncating to the minute and reading the Unix time gives the Unix time less its
  remainder modulo 60: the zero time of Go is a whole number of minutes before the
  Unix epoch.
\<close>

lemma Truncate_Minute_Unix:
  assumes "0 \<le> nsec t" "nsec t < Second"
  shows "Unix (Truncate t Minute) = unix_sec t - unix_sec t mod 60"
proof -
  define U where "U = unix_sec t + unixToInternal"
  define n where "n = nsec t"
  define a where "a = U * Second + n"
  have n: "0 \<le> n" "n < Second" using assms by (simp_all add: n_def)
  have S: "0 < Second" by (simp add: Second_def)
  have M: "Minute = Second * 60" by (simp add: Minute_def)
  have "a div Second = U" unfolding a_def using n S by simp
  moreover have "a div (Second * 60) = a div Second div 60"
    by (rule zdiv_zmult2_eq) simp
  ultimately have q: "a div Minute = U div 60" by (simp add: M)
  have "a - a mod Minute = a div Minute * Minute"
    by (rule minus_mod_eq_div_mult)
  then have "a - a mod Minute = U div 60 * Minute"
    by (simp only: q)
  then have r: "a - a mod Minute = (U div 60 * 60) * Second"
    by (simp add: M)
  have rd: "(a - a mod Minute) div Second = U div 60 * 60"
    unfolding r using S by simp
  have K: "unixToInternal = 1035593280 * 60" by (simp add: unixToInternal_def)
  have "U div 60 = unix_sec t div 60 + 1035593280"
    unfolding U_def K by simp
  then have "U div 60 * 60 - unixToInternal = unix_sec t div 60 * 60"
    unfolding K by simp
  also have "\<dots> = unix_sec t - unix_sec t mod 60"
    by (simp add: minus_mod_eq_div_mult)
  finally have fin: "U div 60 * 60 - unixToInternal = unix_sec t - unix_sec t mod 60" .
  have "0 < Minute" by (simp add: M S)
  then have "Unix (Truncate t Minute) = (a - a mod Minute) div Second - unixToInternal"
    by (simp add: Truncate_def Unix_def Let_def a_def U_def n_def)
  with rd fin show ?thesis by simp
qed

lemma ParseInLocation_Truncate:
  assumes "ParseInLocation l v loc = Inr t"
  shows "Unix (Truncate t Minute) = Unix t - Unix t mod 60"
proof -
  from assms obtain f where f: "parse_fields l v = Inr f" and t: "t = Date f loc"
    by (auto simp: ParseInLocation_def split: sum.splits)
  from parse_fields_range [OF f] have "0 \<le> nsec t" "nsec t < Second"
    by (simp_all add: t Date_def)
  then show ?thesis using Truncate_Minute_Unix [of t] by (simp add: Unix_def)
qed

text \<open>
  In a zone whose offset is a whole number of minutes, the remainder is the seconds
  field, and the truncated time is the same date and time with the seconds at zero.
\<close>

lemma ParseInLocation_seconds:
  assumes "ParseInLocation l v loc = Inr t" "loc mod 60 = 0"
  shows "\<exists>f. parse_fields l v = Inr f \<and> Unix t mod 60 = f_sec f
           \<and> Unix t - Unix t mod 60 = Unix (Date (f\<lparr>f_sec := 0, f_nsec := 0\<rparr>) loc)"
proof -
  from assms obtain f where f: "parse_fields l v = Inr f" and t: "t = Date f loc"
    by (auto simp: ParseInLocation_def split: sum.splits)
  from parse_fields_range [OF f] have s: "0 \<le> f_sec f" "f_sec f < 60" by simp_all
  define A where "A = days_from_civil (f_year f) (f_month f) (f_day f) * 1440 + f_hour f * 60 + f_min f - loc div 60"
  have loc: "loc = loc div 60 * 60" using assms(2) by presburger
  have u: "Unix t = A * 60 + f_sec f"
    unfolding t Date_def Unix_def A_def using loc by simp
  have m: "Unix t mod 60 = f_sec f"
    unfolding u using s by simp
  have "Unix (Date (f\<lparr>f_sec := 0, f_nsec := 0\<rparr>) loc) = A * 60"
    unfolding Date_def Unix_def A_def using loc by simp
  then have "Unix t - Unix t mod 60 = Unix (Date (f\<lparr>f_sec := 0, f_nsec := 0\<rparr>) loc)"
    unfolding m by (simp add: u)
  with f m show ?thesis by blast
qed

lemma AliasToCode_not_id: "AliasToCode k \<noteq> Some ''_id''"
  by (simp add: AliasToCode_def FieldNameMapping_def)

lemma row_cells_id:
  "''_id'' \<notin> set ks \<Longrightarrow> row_cells pf cells ks r ''_id'' = r ''_id''"
proof (induction pf cells ks r rule: row_cells.induct)
  case (1 pf cell cells k ks rcd)
  then show ?case
    using AliasToCode_not_id [of k] by (auto split: option.splits)
qed simp_all

lemma ExtractObject_rows_id:
  assumes "''_id'' \<notin> set (drop 2 columns)" "r \<in> set (ExtractObject_rows pf cfg columns data)"
  shows "\<exists>row \<in> set data. \<exists>t. ParseInLocation Dashed (row ! 0) (TimezoneLocation cfg) = Inr t
            \<and> r ''_id'' = Some (VInt (Unix t))"
  using assms(2)
proof (induction data)
  case Nil
  then show ?case by simp
next
  case (Cons row data)
  show ?case
  proof (cases "r \<in> set (ExtractObject_rows pf cfg columns data)")
    case True
    with Cons.IH show ?thesis by auto
  next
    case False
    with Cons.prems obtain t n where
      t: "ParseInLocation Dashed (row ! 0) (TimezoneLocation cfg) = Inr t"
      and r: "r = row_cells pf (drop 2 row) (drop 2 columns) [''_id'' \<mapsto> VInt (Unix t), ''n'' \<mapsto> VFloat n]"
      by (auto simp: Let_def split: if_splits sum.splits option.splits)
    have "r ''_id'' = Some (VInt (Unix t))"
      unfolding r by (simp add: row_cells_id [OF assms(1)])
    with t show ?thesis by auto
  qed
qed

lemma Baria_timestamp:
  assumes "ParseBariaTimestampFromFilename cfg filename = Inr ts"
  shows "\<exists>t. ParseInLocation Compact
               (drop (nat (LastIndex (TrimSuffix (Base filename) (Ext (Base filename))) ''_'' + 1))
                  (TrimSuffix (Base filename) (Ext (Base filename))))
               (TimezoneLocation cfg) = Inr t
            \<and> ts = Unix t - Unix t mod 60"
  using assms ParseInLocation_Truncate
  by (auto simp: ParseBariaTimestampFromFilename_def Let_def split: if_splits sum.splits)

lemma AmChua_timestamp:
  assumes "parseFilenameForTimestamp cfg filename = Inr ts"
  shows "\<exists>t. ParseInLocation Compact (TrimSuffix (Base (Base filename)) (Ext (Base filename)))
               (TimezoneLocation cfg) = Inr t
            \<and> ts = Unix t - Unix t mod 60"
  using assms ParseInLocation_Truncate
  by (auto simp: parseFilenameForTimestamp_def Let_def split: if_splits sum.splits)

section \<open>File admission\<close>

lemma ShouldProcessFile_iff:
  "ShouldProcessFile (Some fp) filename \<longleftrightarrow>
     \<not> (\<exists>p \<in> set (IgnorePatterns fp). MatchString p filename)
     \<and> (\<exists>p \<in> set (AllowPatterns fp). MatchString p filename)"
  by (cases "AllowPatterns fp"; cases "IgnorePatterns fp")
     (auto simp: ShouldProcessFile_def list_ex_iff)

text \<open>
  C6.  A path that an ignore pattern matches is rejected whatever the allow patterns
  are; a path that no ignore pattern matches is admitted exactly when an allow
  pattern matches it; with no allow pattern, or with the patterns not loaded, every
  path is rejected; and an unset ALLOW_PATTERNS loads as no pattern.
\<close>

theorem ShouldProcessFile_admission:
  "((\<exists>p \<in> set (IgnorePatterns fp). MatchString p filename) \<longrightarrow> \<not> ShouldProcessFile (Some fp) filename)
   \<and> (\<not> (\<exists>p \<in> set (IgnorePatterns fp). MatchString p filename) \<longrightarrow>
        ShouldProcessFile (Some fp) filename = (\<exists>p \<in> set (AllowPatterns fp). MatchString p filename))
   \<and> (AllowPatterns fp = [] \<longrightarrow> \<not> ShouldProcessFile (Some fp) filename)
   \<and> \<not> ShouldProcessFile None filename
   \<and> loadAllowPatterns compile [] = Some []"
  by (auto simp: ShouldProcessFile_iff) (simp_all add: ShouldProcessFile_def loadAllowPatterns_def)

text \<open>
  The theorem on the patterns of the specification's example: .csv allowed, .tmp
  ignored.
\<close>

theorem ShouldProcessFile_admission_witness:
  "ShouldProcessFile (Some \<lparr>AllowPatterns = [suffix_pattern ''.csv''], IgnorePatterns = [suffix_pattern ''.tmp'']\<rparr>) ''a.csv''
   \<and> \<not> ShouldProcessFile (Some \<lparr>AllowPatterns = [suffix_pattern ''.csv'', suffix_pattern ''.tmp''],
                                 IgnorePatterns = [suffix_pattern ''.tmp'']\<rparr>) ''a.tmp''
   \<and> \<not> ShouldProcessFile (Some \<lparr>AllowPatterns = [], IgnorePatterns = [suffix_pattern ''.tmp'']\<rparr>) ''a.csv''"
proof -
  have m1: "\<not> (\<exists>p \<in> set [suffix_pattern ''.tmp'']. MatchString p ''a.csv'')"
    by (simp add: MatchString_def suffix_pattern_def HasSuffix_def suffix_def)
  have m2: "\<exists>p \<in> set [suffix_pattern ''.csv'']. MatchString p ''a.csv''"
    by (simp add: MatchString_def suffix_pattern_def HasSuffix_def suffix_def)
  have m3: "\<exists>p \<in> set [suffix_pattern ''.tmp'']. MatchString p ''a.tmp''"
    by (simp add: MatchString_def suffix_pattern_def HasSuffix_def suffix_def)
  from ShouldProcessFile_admission
    [of "\<lparr>AllowPatterns = [suffix_pattern ''.csv''], IgnorePatterns = [suffix_pattern ''.tmp'']\<rparr>" "''a.csv''"]
    m1 m2
  have 1: "ShouldProcessFile (Some \<lparr>AllowPatterns = [suffix_pattern ''.csv''], IgnorePatterns = [suffix_pattern ''.tmp'']\<rparr>) ''a.csv''"
    by simp
  from ShouldProcessFile_admission
    [of "\<lparr>AllowPatterns = [suffix_pattern ''.csv'', suffix_pattern ''.tmp''], IgnorePatterns = [suffix_pattern ''.tmp'']\<rparr>" "''a.tmp''"]
    m3
  have 2: "\<not> ShouldProcessFile (Some \<lparr>AllowPatterns = [suffix_pattern ''.csv'', suffix_pattern ''.tmp''],
                                 IgnorePatterns = [suffix_pattern ''.tmp'']\<rparr>) ''a.tmp''"
    by simp
  from ShouldProcessFile_admission
    [of "\<lparr>AllowPatterns = [], IgnorePatterns = [suffix_pattern ''.tmp'']\<rparr>" "''a.csv''"]
  have 3: "\<not> ShouldProcessFile (Some \<lparr>AllowPatterns = [], IgnorePatterns = [suffix_pattern ''.tmp'']\<rparr>) ''a.csv''"
    by simp
  from 1 2 3 show ?thesis by blast
qed

section \<open>The age of an event\<close>

text \<open>
  The configured maximum age: unset or not a number keeps the current value (86400 at
  start), 0 stays 0, another value below 300 becomes 300, any other value is taken.
\<close>

lemma initEventAgeConfig_cases:
  "initEventAgeConfig [] current = current"
  "maxAgeStr \<noteq> [] \<Longrightarrow> ParseInt maxAgeStr = None \<Longrightarrow> initEventAgeConfig maxAgeStr current = current"
  "maxAgeStr \<noteq> [] \<Longrightarrow> ParseInt maxAgeStr = Some 0 \<Longrightarrow> initEventAgeConfig maxAgeStr current = 0"
  "maxAgeStr \<noteq> [] \<Longrightarrow> ParseInt maxAgeStr = Some n \<Longrightarrow> n \<noteq> 0 \<Longrightarrow> n < 300 \<Longrightarrow>
     initEventAgeConfig maxAgeStr current = 300"
  "maxAgeStr \<noteq> [] \<Longrightarrow> ParseInt maxAgeStr = Some n \<Longrightarrow> 300 \<le> n \<Longrightarrow>
     initEventAgeConfig maxAgeStr current = n"
  by (auto simp: initEventAgeConfig_def MIN_EVENT_AGE_SECONDS_def)

lemma int64_id: "- (2 ^ 63) \<le> x \<Longrightarrow> x < 2 ^ 63 \<Longrightarrow> int64 x = x"
proof -
  assume a: "- (2 ^ 63) \<le> x" "x < 2 ^ 63"
  have "(x + 2 ^ 63) mod 2 ^ 64 = x + 2 ^ 63"
    using a by (intro mod_pos_pos_trivial) simp_all
  then show ?thesis by (simp add: int64_def)
qed

text \<open>
  For a maximum age from 1 to 9223372036 seconds the product fits, and the event is too
  old exactly when its age exceeds the maximum; at 0 no event is too old; and an event
  that is too old is dropped with no call to any service.
\<close>

lemma isEventTooOld_in_range:
  assumes "0 < M" "M \<le> 9223372036"
  shows "isEventTooOld M now t \<longleftrightarrow> now - (unix_sec t * Second + nsec t) > M * Second"
proof -
  have lo: "- (2 ^ 63) \<le> M * Second" using assms by (simp add: Second_def)
  have "M * Second \<le> 9223372036 * Second" using assms by (simp add: Second_def)
  then have hi: "M * Second < 2 ^ 63 - 1" by (simp add: Second_def)
  then have "M * Second < 2 ^ 63" by simp
  with lo have w: "int64 (M * Second) = M * Second" by (rule int64_id)
  show ?thesis
    using assms(1) hi lo unfolding isEventTooOld_def Since_def Let_def w maxDuration_def minDuration_def
    by auto
qed

lemma isEventTooOld_zero: "\<not> isEventTooOld 0 now t"
  by (simp add: isEventTooOld_def)

lemma helloGCS_discards_old_event:
  assumes "\<not> IsZero (ce_Time ce)" "isEventTooOld maxAge (time_Now X (world s)) (ce_Time ce)"
  shows "helloGCS X cfg gpat maxAge ce s = (None, s)"
  using assms by (simp add: helloGCS_def Let_def)

text \<open>
  C8 at a configured maximum age of 9223372037 seconds.  The configuration accepts the
  value; an event one second old is not older than it; yet the check finds the event
  too old, because the product with the nanoseconds of a second wraps around in 64
  bits, and the handler returns success without a call to any service.
\<close>

theorem isEventTooOld_overflow:
  "initEventAgeConfig ''9223372037'' EVENT_MAX_AGE_SECONDS_default = 9223372037
   \<and> Since (time_Now demo empty_mem) (ce_Time recent_event) = 1 * Second
   \<and> \<not> 1 * Second > 9223372037 * Second
   \<and> isEventTooOld 9223372037 (time_Now demo empty_mem) (ce_Time recent_event)
   \<and> helloGCS demo config7 csv_patterns 9223372037 recent_event (start empty_mem)
       = (None, start empty_mem)"
proof -
  have 1: "initEventAgeConfig ''9223372037'' EVENT_MAX_AGE_SECONDS_default = 9223372037"
    by code_simp
  have 2: "Since (time_Now demo empty_mem) (ce_Time recent_event) = 1 * Second"
    by (simp add: Since_def demo_def empty_mem_def recent_event_def Second_def maxDuration_def minDuration_def)
  have 3: "\<not> 1 * Second > 9223372037 * Second" by (simp add: Second_def)
  have 4: "isEventTooOld 9223372037 (time_Now demo empty_mem) (ce_Time recent_event)"
    unfolding isEventTooOld_def Let_def 2 by (simp add: int64_def Second_def)
  have z: "\<not> IsZero (ce_Time recent_event)"
    by (simp add: IsZero_def recent_event_def unixToInternal_def)
  have 5: "helloGCS demo config7 csv_patterns 9223372037 recent_event (start empty_mem)
       = (None, start empty_mem)"
    unfolding helloGCS_def Let_def using 4 z by (simp add: start_def)
  from 1 2 3 4 5 show ?thesis by blast
qed

section \<open>The matched box is never nil where it is dereferenced\<close>

lemma MatchBariaBox_in_None:
  "MatchBariaBox_in boxes path = None \<longleftrightarrow> \<not> (\<exists>box \<in> set boxes. Contains path (BR_Path box))"
  by (induction boxes) auto

lemma MatchBariaBox_in_Some:
  "MatchBariaBox_in boxes path = Some box \<Longrightarrow> box \<in> set boxes \<and> Contains path (BR_Path box)"
  by (induction boxes) (auto split: if_splits)

lemma IsBariaFile_iff:
  "IsBariaFile filename \<longleftrightarrow> (\<exists>box \<in> set BoxesBR. Contains (ToSlash filename) (BR_Path box))"
  using MatchBariaBox_in_None [of BoxesBR "ToSlash filename"]
  by (auto simp: IsBariaFile_def MatchBariaBox_def)

lemma ProcessBariaFile_no_panic:
  assumes "MatchBariaBox filename \<noteq> None"
  shows "fst (ProcessBariaFile X cfg filename content s) \<noteq> Inl NilDereference"
proof -
  from assms obtain b where b: "MatchBariaBox filename = Some b" by auto
  show ?thesis
  proof (cases "ParseBariaTimestampFromFilename cfg filename")
    case (Inl e)
    then show ?thesis by (simp add: ProcessBariaFile_def)
  next
    case (Inr ts)
    then show ?thesis
      unfolding ProcessBariaFile_def Let_def b
      by (auto split: prod.splits option.splits)
  qed
qed

lemma ProcessAmChuaFile_no_panic:
  "fst (ProcessAmChuaFile X cfg filename content s) \<noteq> Inl NilDereference"
  unfolding ProcessAmChuaFile_def Let_def
  by (auto split: sum.splits option.splits prod.splits)

lemma ProcessCSVFile_tabular_no_panic:
  "fst (case ExtractData X cfg filename content of
          Inl err \<Rightarrow> (Inl (Wrapped (''file '' @ filename) err), s1)
        | Inr (deviceID, records) \<Rightarrow>
            (case FindBoxByDeviceID X deviceID s1 of
               (Inl err, s2) \<Rightarrow> (Inr 0, s2)
             | (Inr box, s2) \<Rightarrow>
                 (case InsertSensorRecords X filename deviceID box records s2 of
                    (Inl err, s3) \<Rightarrow> (Inl (Wrapped (''file '' @ filename) err), s3)
                  | (Inr inserted, s3) \<Rightarrow> (Inr inserted, s3)))) \<noteq> Inl NilDereference"
  by (auto split: sum.splits prod.splits)

lemma ProcessCSVFile_no_panic:
  "fst (ProcessCSVFile X cfg bucket filename s) \<noteq> Inl NilDereference"
proof (cases "ReadObject X bucket filename s")
  case (Pair r s1)
  show ?thesis
  proof (cases r)
    case (Inl msg)
    with Pair show ?thesis by (simp add: ProcessCSVFile_def)
  next
    case (Inr content)
    show ?thesis
    proof (cases "IsAmChuaFile filename")
      case True
      with Pair Inr show ?thesis
        by (simp add: ProcessCSVFile_def ProcessAmChuaFile_no_panic)
    next
      case False
      show ?thesis
      proof (cases "IsBariaFile filename")
        case True
        then have "MatchBariaBox filename \<noteq> None" by (simp add: IsBariaFile_def)
        from ProcessBariaFile_no_panic [OF this] Pair Inr False True show ?thesis
          by (simp add: ProcessCSVFile_def)
      next
        case nb: False
        with Pair Inr False show ?thesis
          by (simp add: ProcessCSVFile_def ProcessCSVFile_tabular_no_panic)
      qed
    qed
  qed
qed

text \<open>
  C9.  IsBariaFile holds exactly when MatchBariaBox finds a box, which is exactly when
  the path contains the path hint of a registered box.  ProcessBariaFile does
  dereference the box without a check: with no box matched and a file name that
  parses, it panics.  ProcessCSVFile never does, for any file name, content and
  behaviour of the external services.
\<close>

theorem ProcessCSVFile_never_dereferences_nil:
  "(IsBariaFile filename \<longleftrightarrow> MatchBariaBox filename \<noteq> None)
   \<and> (MatchBariaBox filename \<noteq> None \<longleftrightarrow>
        (\<exists>box \<in> set BoxesBR. Contains (ToSlash filename) (BR_Path box)))
   \<and> (MatchBariaBox filename = None \<longrightarrow> ParseBariaTimestampFromFilename cfg filename = Inr ts \<longrightarrow>
        fst (ProcessBariaFile X cfg filename content s) = Inl NilDereference)
   \<and> fst (ProcessCSVFile X cfg bucket filename s) \<noteq> Inl NilDereference"
proof (intro conjI impI)
  show "IsBariaFile filename \<longleftrightarrow> MatchBariaBox filename \<noteq> None"
    by (simp add: IsBariaFile_def)
  show "MatchBariaBox filename \<noteq> None \<longleftrightarrow>
        (\<exists>box \<in> set BoxesBR. Contains (ToSlash filename) (BR_Path box))"
    using IsBariaFile_iff by (simp add: IsBariaFile_def)
next
  assume "MatchBariaBox filename = None" "ParseBariaTimestampFromFilename cfg filename = Inr ts"
  then show "fst (ProcessBariaFile X cfg filename content s) = Inl NilDereference"
    by (simp add: ProcessBariaFile_def Let_def)
next
  show "fst (ProcessCSVFile X cfg bucket filename s) \<noteq> Inl NilDereference"
    by (rule ProcessCSVFile_no_panic)
qed

text \<open>
  The theorem at a path with the hint of box S83FIGA0, and at a path with no hint,
  where ProcessBariaFile alone panics.
\<close>

theorem ProcessCSVFile_never_dereferences_nil_witness:
  "IsBariaFile baria_name
   \<and> MatchBariaBox baria_name \<noteq> None
   \<and> fst (ProcessCSVFile demo config7 ''bucket'' baria_name (start empty_mem)) \<noteq> Inl NilDereference
   \<and> MatchBariaBox other_name = None
   \<and> ParseBariaTimestampFromFilename config7 other_name = Inr 1766840400
   \<and> fst (ProcessBariaFile demo config7 other_name baria_content (start empty_mem)) = Inl NilDereference"
proof -
  have h1: "MatchBariaBox baria_name \<noteq> None" by code_simp
  have h2: "MatchBariaBox other_name = None" by code_simp
  have h3: "ParseBariaTimestampFromFilename config7 other_name = Inr 1766840400" by code_simp
  note i1 = ProcessCSVFile_never_dereferences_nil
    [of baria_name config7 1766840400 demo baria_content "start empty_mem" "''bucket''"]
  note i2 = ProcessCSVFile_never_dereferences_nil
    [of other_name config7 1766840400 demo baria_content "start empty_mem" "''bucket''"]
  from i1 h1 have "IsBariaFile baria_name" by blast
  moreover from i1 have "fst (ProcessCSVFile demo config7 ''bucket'' baria_name (start empty_mem)) \<noteq> Inl NilDereference"
    by blast
  moreover from i2 h2 h3
  have "fst (ProcessBariaFile demo config7 other_name baria_content (start empty_mem)) = Inl NilDereference"
    by blast
  ultimately show ?thesis using h1 h2 h3 by blast
qed

section \<open>The single-record loaders\<close>

lemma InsertOne_calls: "calls (snd (InsertOne X col doc s)) = calls s @ [InsertOneCall col doc]"
  by (simp add: InsertOne_def split: prod.splits)


lemma baria_lines_append:
  "baria_lines pf (xs @ ys) vm = baria_lines pf ys (baria_lines pf xs vm)"
  by (induction xs arbitrary: vm) (auto simp: Let_def split: option.splits)
lemma baria_lines_skip:
  assumes "baria_bad_line pf line"
  shows "baria_lines pf (pre @ line # post) vm = baria_lines pf (pre @ post) vm"
proof -
  have "baria_lines pf (line # post) vm' = baria_lines pf post vm'" for vm'
    using assms by (simp add: baria_bad_line_def Let_def)
  then show ?thesis by (simp add: baria_lines_append)
qed

lemma amchua_lines_None:
  "amchua_lines pf lines vm = None \<longleftrightarrow> (\<exists>line \<in> set lines. amchua_bad_line pf line)"
  by (induction lines arbitrary: vm)
     (auto simp: Let_def amchua_bad_line_def split: option.splits)

lemma amchua_lines_no_pairs:
  "\<forall>line \<in> set lines. length (Fields (TrimSpace line)) < 2 \<Longrightarrow> amchua_lines pf lines vm = Some vm"
  by (induction lines arbitrary: vm) (auto simp: Let_def)

lemma InsertOne_callsD:
  "InsertOne X col doc s = (r, s') \<Longrightarrow> calls s' = calls s @ [InsertOneCall col doc]"
  using InsertOne_calls [of X col doc s] by simp

lemma doc0_fun:
  "[''_id'' \<mapsto> a, ''c'' \<mapsto> b] =
     (\<lambda>k. if k = ''c'' then Some b else if k = ''_id'' then Some a else None)"
  by (rule ext) simp

lemma amchua_boxes_calls:
  "calls (snd (amchua_boxes X ts now vm boxes n s)) =
     calls s @ map (\<lambda>box. InsertOneCall (''sensor_data_'' @ AC_ID box)
                      (add_metrics (AC_Metrics box) vm [''_id'' \<mapsto> VInt ts, ''c'' \<mapsto> VInt now])) boxes"
proof (induction boxes arbitrary: n s)
  case Nil
  then show ?case by simp
next
  case (Cons box boxes)
  show ?case
    by (auto simp: Let_def Cons.IH doc0_fun split: prod.splits option.splits dest!: InsertOne_callsD)
qed

lemma empty_content_no_pairs:
  "\<forall>line \<in> set (Split (TrimSpace []) CHR 0x0A). length (Fields (TrimSpace line)) < 2"
  by code_simp

lemma ProcessBariaFile_calls:
  assumes "MatchBariaBox filename = Some b" "ParseBariaTimestampFromFilename cfg filename = Inr ts"
  shows "calls (snd (ProcessBariaFile X cfg filename content s)) =
           calls s @ [InsertOneCall (''sensor_data_'' @ BR_ID b)
              (add_metrics (BR_Metrics b)
                 (baria_lines (ParseFloat X) (Split (TrimSpace content) CHR 0x0A) Map.empty)
                 [''_id'' \<mapsto> VInt ts, ''c'' \<mapsto> VInt (time_Now X (world s) div Second)])]"
  using assms
  by (auto simp: ProcessBariaFile_def Let_def doc0_fun split: prod.splits option.splits
           dest!: InsertOne_callsD)

lemma ProcessAmChuaFile_calls:
  assumes "parseFilenameForTimestamp cfg filename = Inr ts"
    "amchua_lines (ParseFloat X) (Split (TrimSpace content) CHR 0x0A) Map.empty = Some vm"
  shows "calls (snd (ProcessAmChuaFile X cfg filename content s)) =
           calls s @ map (\<lambda>box. InsertOneCall (''sensor_data_'' @ AC_ID box)
              (add_metrics (AC_Metrics box) vm
                 [''_id'' \<mapsto> VInt ts, ''c'' \<mapsto> VInt (time_Now X (world s) div Second)])) AmChuaBoxes"
proof -
  have "calls (snd (ProcessAmChuaFile X cfg filename content s))
        = calls (snd (amchua_boxes X ts (time_Now X (world s) div Second) vm AmChuaBoxes 0 s))"
    using assms by (simp add: ProcessAmChuaFile_def Let_def split: prod.splits)
  then show ?thesis by (simp only: amchua_boxes_calls)
qed

text \<open>
  White space is Unicode's.  A no-break space (U+00A0), an ideographic space (U+3000)
  and the other multi-byte spaces are trimmed and separate fields, so an AmChua line
  with a no-break space between the key and a value that does not parse aborts the
  file, one with the no-break space after the key alone is skipped, and a BaRia value
  with a no-break space before it is read.
\<close>

lemma white_space_is_Unicode:
  "TrimSpace ([CHR 0xC2, CHR 0xA0] @ ''12.5'' @ [CHR 0xE3, CHR 0x80, CHR 0x80]) = ''12.5''
   \<and> Fields (''rain_1'' @ [CHR 0xC2, CHR 0xA0] @ ''x'') = [''rain_1'', ''x'']
   \<and> Fields (''abc '' @ [CHR 0xC2, CHR 0xA0]) = [''abc'']
   \<and> Fields (''rain_1 1'' @ [CHR 0xC2, CHR 0xA0] @ ''2'') = [''rain_1'', ''1'', ''2'']
   \<and> TrimSpace [CHR 0xE2, CHR 0x80, CHR 0x8B] = [CHR 0xE2, CHR 0x80, CHR 0x8B]
   \<and> TrimSpace [CHR 0xC2, CHR 0xC2, CHR 0xA0] = [CHR 0xC2]"
  by code_simp

lemma AmChua_no_break_space:
  "fst (ProcessAmChuaFile demo config7 amchua_name (''rain_1'' @ [CHR 0xC2, CHR 0xA0] @ ''x'') (start empty_mem)) = Inr 0
   \<and> length (calls (snd (ProcessAmChuaFile demo config7 amchua_name (''rain_1'' @ [CHR 0xC2, CHR 0xA0] @ ''x'')
                             (start empty_mem)))) = 0
   \<and> fst (ProcessAmChuaFile demo config7 amchua_name (''abc '' @ [CHR 0xC2, CHR 0xA0]) (start empty_mem)) = Inr 5
   \<and> fst (ProcessAmChuaFile demo config7 amchua_name (''rain_1 1'' @ [CHR 0xC2, CHR 0xA0] @ ''2'')
             (start empty_mem)) = Inr 5"
  by code_simp

lemma BaRia_no_break_space:
  "values_at ''WAU'' (docs_passed (calls (snd (ProcessBariaFile demo config7 baria_name
      (''MNK'' @ [CHR 0xC2, CHR 0xA0, CHR 0x09] @ ''12.5'') (start empty_mem))))) = [Some (VFloat (25 / 2))]
   \<and> values_at ''WAU'' (docs_passed (calls (snd (ProcessBariaFile demo config7 baria_name
      (''MNK'' @ [CHR 0x09, CHR 0xC2, CHR 0xA0] @ ''12.5'') (start empty_mem))))) = [Some (VFloat (25 / 2))]"
  by code_simp

text \<open>
  C5.  In the BaRia loader (FamilyA) a line whose value does not parse is skipped: the
  values read are those of the other lines, and the document inserted is built from
  them.  In the AmChua loader (FamilyB) one such line, anywhere in the file, ends the
  processing: the result is zero records and no error, and the state is unchanged, so
  that no document is inserted for any box.
\<close>

theorem value_parse_failure_skips_line_or_aborts_file:
  "(baria_bad_line pf line \<longrightarrow>
      baria_lines pf (pre @ line # post) vm = baria_lines pf (pre @ post) vm)
   \<and> (MatchBariaBox filename = Some b \<longrightarrow> ParseBariaTimestampFromFilename cfg filename = Inr ts \<longrightarrow>
      Split (TrimSpace content) CHR 0x0A = pre @ line # post \<longrightarrow> baria_bad_line (ParseFloat X) line \<longrightarrow>
      calls (snd (ProcessBariaFile X cfg filename content s)) =
        calls s @ [InsertOneCall (''sensor_data_'' @ BR_ID b)
           (add_metrics (BR_Metrics b) (baria_lines (ParseFloat X) (pre @ post) Map.empty)
              [''_id'' \<mapsto> VInt ts, ''c'' \<mapsto> VInt (time_Now X (world s) div Second)])])
   \<and> (parseFilenameForTimestamp cfg filename' = Inr ts' \<longrightarrow>
      (\<exists>line \<in> set (Split (TrimSpace content') CHR 0x0A). amchua_bad_line (ParseFloat X) line) \<longrightarrow>
      ProcessAmChuaFile X cfg filename' content' s = (Inr 0, s))"
proof (intro conjI impI)
  assume "baria_bad_line pf line"
  then show "baria_lines pf (pre @ line # post) vm = baria_lines pf (pre @ post) vm"
    by (rule baria_lines_skip)
next
  assume a: "MatchBariaBox filename = Some b" "ParseBariaTimestampFromFilename cfg filename = Inr ts"
    and sp: "Split (TrimSpace content) CHR 0x0A = pre @ line # post"
    and bad: "baria_bad_line (ParseFloat X) line"
  show "calls (snd (ProcessBariaFile X cfg filename content s)) =
        calls s @ [InsertOneCall (''sensor_data_'' @ BR_ID b)
           (add_metrics (BR_Metrics b) (baria_lines (ParseFloat X) (pre @ post) Map.empty)
              [''_id'' \<mapsto> VInt ts, ''c'' \<mapsto> VInt (time_Now X (world s) div Second)])]"
    unfolding ProcessBariaFile_calls [OF a] sp baria_lines_skip [OF bad] ..
next
  assume a: "parseFilenameForTimestamp cfg filename' = Inr ts'"
    and bad: "\<exists>line \<in> set (Split (TrimSpace content') CHR 0x0A). amchua_bad_line (ParseFloat X) line"
  from bad have "amchua_lines (ParseFloat X) (Split (TrimSpace content') CHR 0x0A) Map.empty = None"
    by (simp add: amchua_lines_None)
  with a show "ProcessAmChuaFile X cfg filename' content' s = (Inr 0, s)"
    by (simp add: ProcessAmChuaFile_def Let_def)
qed

text \<open>
  The theorem on a BaRia file whose first line has the value abc, and on an AmChua
  file whose second line has the value x.
\<close>

theorem value_parse_failure_skips_line_or_aborts_file_witness:
  "baria_bad_line demo_ParseFloat (''MNK'' @ [CHR 0x09] @ ''abc'')
   \<and> values_at ''WAU'' (docs_passed (calls (snd
         (ProcessBariaFile demo config7 baria_name baria_content_bad (start empty_mem))))) = [Some (VInt 0)]
   \<and> values_at ''DR1'' (docs_passed (calls (snd
         (ProcessBariaFile demo config7 baria_name baria_content_bad (start empty_mem))))) = [Some (VFloat 3)]
   \<and> ProcessAmChuaFile demo config7 amchua_name amchua_content_bad (start empty_mem) = (Inr 0, start empty_mem)"
proof -
  define line where "line = ''MNK'' @ [CHR 0x09] @ ''abc''"
  define post where "post = [''Domocong'' @ [CHR 0x09] @ ''3.0'']"
  have h1: "MatchBariaBox baria_name = Some (BoxesBR ! 0)" by code_simp
  have h2: "ParseBariaTimestampFromFilename config7 baria_name = Inr 1766840400" by code_simp
  have h3: "Split (TrimSpace baria_content_bad) CHR 0x0A = [] @ line # post"
    unfolding line_def post_def by code_simp
  have h4: "baria_bad_line (ParseFloat demo) line" unfolding line_def by code_simp
  have h5: "parseFilenameForTimestamp config7 amchua_name = Inr 1764417600" by code_simp
  have h6: "amchua_bad_line (ParseFloat demo) (''waterup x'')" by code_simp
  have h7: "''waterup x'' \<in> set (Split (TrimSpace amchua_content_bad) CHR 0x0A)" by code_simp
  note inst = value_parse_failure_skips_line_or_aborts_file
    [of demo_ParseFloat line "[]" post Map.empty baria_name "BoxesBR ! 0" config7 1766840400
        baria_content_bad demo "start empty_mem" amchua_name 1764417600 amchua_content_bad]
  from inst h1 h2 h3 h4
  have c: "calls (snd (ProcessBariaFile demo config7 baria_name baria_content_bad (start empty_mem))) =
        calls (start empty_mem) @ [InsertOneCall (''sensor_data_'' @ BR_ID (BoxesBR ! 0))
           (add_metrics (BR_Metrics (BoxesBR ! 0)) (baria_lines (ParseFloat demo) ([] @ post) Map.empty)
              [''_id'' \<mapsto> VInt 1766840400, ''c'' \<mapsto> VInt (time_Now demo (world (start empty_mem)) div Second)])]"
    by blast
  have v1: "add_metrics (BR_Metrics (BoxesBR ! 0)) (baria_lines (ParseFloat demo) post Map.empty)
              [''_id'' \<mapsto> VInt 1766840400, ''c'' \<mapsto> VInt (time_Now demo (world (start empty_mem)) div Second)] ''WAU''
            = Some (VInt 0)"
    unfolding post_def by code_simp
  have v2: "add_metrics (BR_Metrics (BoxesBR ! 0)) (baria_lines (ParseFloat demo) post Map.empty)
              [''_id'' \<mapsto> VInt 1766840400, ''c'' \<mapsto> VInt (time_Now demo (world (start empty_mem)) div Second)] ''DR1''
            = Some (VFloat 3)"
    unfolding post_def by code_simp
  have s0: "calls (start empty_mem) = []" by (simp add: start_def)
  have r1: "values_at ''WAU'' (docs_passed (calls (snd
         (ProcessBariaFile demo config7 baria_name baria_content_bad (start empty_mem))))) = [Some (VInt 0)]"
    unfolding c s0 by (simp add: values_at_def docs_passed_def v1)
  have r2: "values_at ''DR1'' (docs_passed (calls (snd
         (ProcessBariaFile demo config7 baria_name baria_content_bad (start empty_mem))))) = [Some (VFloat 3)]"
    unfolding c s0 by (simp add: values_at_def docs_passed_def v2)
  from inst h5 h6 h7
  have r3: "ProcessAmChuaFile demo config7 amchua_name amchua_content_bad (start empty_mem) = (Inr 0, start empty_mem)"
    by blast
  have d: "ParseFloat demo = demo_ParseFloat" by (simp add: demo_def)
  from h4 r1 r2 r3 show ?thesis unfolding line_def d by blast
qed

text \<open>
  C10.  An AmChua file whose name carries a valid timestamp and whose lines all have
  fewer than two fields (an empty content is one empty line) still makes the loader
  insert one document for each of the five boxes, with every metric of the box at the
  integer 0.
\<close>

theorem empty_AmChua_file_inserts_zero_documents:
  "(parseFilenameForTimestamp cfg filename = Inr ts \<longrightarrow>
      (\<forall>line \<in> set (Split (TrimSpace content) CHR 0x0A). length (Fields (TrimSpace line)) < 2) \<longrightarrow>
      calls (snd (ProcessAmChuaFile X cfg filename content s)) =
        calls s @
        [InsertOneCall ''sensor_data_P7IBJJ87''
           [''_id'' \<mapsto> VInt ts, ''c'' \<mapsto> VInt (time_Now X (world s) div Second), ''RA'' \<mapsto> VInt 0],
         InsertOneCall ''sensor_data_LPDNWOUM''
           [''_id'' \<mapsto> VInt ts, ''c'' \<mapsto> VInt (time_Now X (world s) div Second), ''WAU'' \<mapsto> VInt 0],
         InsertOneCall ''sensor_data_YLW16RKW''
           [''_id'' \<mapsto> VInt ts, ''c'' \<mapsto> VInt (time_Now X (world s) div Second), ''DR1'' \<mapsto> VInt 0],
         InsertOneCall ''sensor_data_RIENVHK4''
           [''_id'' \<mapsto> VInt ts, ''c'' \<mapsto> VInt (time_Now X (world s) div Second), ''DR1'' \<mapsto> VInt 0,
            ''DR2'' \<mapsto> VInt 0],
         InsertOneCall ''sensor_data_T5CRC2FV''
           [''_id'' \<mapsto> VInt ts, ''c'' \<mapsto> VInt (time_Now X (world s) div Second), ''RA'' \<mapsto> VInt 0]])
   \<and> (\<forall>line \<in> set (Split (TrimSpace []) CHR 0x0A). length (Fields (TrimSpace line)) < 2)"
proof (intro conjI impI)
  assume a: "parseFilenameForTimestamp cfg filename = Inr ts"
    and np: "\<forall>line \<in> set (Split (TrimSpace content) CHR 0x0A). length (Fields (TrimSpace line)) < 2"
  from amchua_lines_no_pairs [OF np]
  have vm: "amchua_lines (ParseFloat X) (Split (TrimSpace content) CHR 0x0A) Map.empty = Some Map.empty" .
  show "calls (snd (ProcessAmChuaFile X cfg filename content s)) =
        calls s @
        [InsertOneCall ''sensor_data_P7IBJJ87''
           [''_id'' \<mapsto> VInt ts, ''c'' \<mapsto> VInt (time_Now X (world s) div Second), ''RA'' \<mapsto> VInt 0],
         InsertOneCall ''sensor_data_LPDNWOUM''
           [''_id'' \<mapsto> VInt ts, ''c'' \<mapsto> VInt (time_Now X (world s) div Second), ''WAU'' \<mapsto> VInt 0],
         InsertOneCall ''sensor_data_YLW16RKW''
           [''_id'' \<mapsto> VInt ts, ''c'' \<mapsto> VInt (time_Now X (world s) div Second), ''DR1'' \<mapsto> VInt 0],
         InsertOneCall ''sensor_data_RIENVHK4''
           [''_id'' \<mapsto> VInt ts, ''c'' \<mapsto> VInt (time_Now X (world s) div Second), ''DR1'' \<mapsto> VInt 0,
            ''DR2'' \<mapsto> VInt 0],
         InsertOneCall ''sensor_data_T5CRC2FV''
           [''_id'' \<mapsto> VInt ts, ''c'' \<mapsto> VInt (time_Now X (world s) div Second), ''RA'' \<mapsto> VInt 0]]"
    unfolding ProcessAmChuaFile_calls [OF a vm] by (simp add: AmChuaBoxes_def)
next
  show "\<forall>line \<in> set (Split (TrimSpace []) CHR 0x0A). length (Fields (TrimSpace line)) < 2"
    by (rule empty_content_no_pairs)
qed

text \<open>The theorem on an empty file, with a store that accepts the five documents.\<close>

theorem empty_AmChua_file_inserts_zero_documents_witness:
  "parseFilenameForTimestamp config7 amchua_name = Inr 1764417600
   \<and> fst (ProcessAmChuaFile demo config7 amchua_name [] (start empty_mem)) = Inr 5
   \<and> length (calls (snd (ProcessAmChuaFile demo config7 amchua_name [] (start empty_mem)))) = 5
   \<and> values_at ''_id'' (docs_passed (calls (snd (ProcessAmChuaFile demo config7 amchua_name [] (start empty_mem)))))
        = [Some (VInt 1764417600), Some (VInt 1764417600), Some (VInt 1764417600),
           Some (VInt 1764417600), Some (VInt 1764417600)]
   \<and> values_at ''RA'' (docs_passed (calls (snd (ProcessAmChuaFile demo config7 amchua_name [] (start empty_mem)))))
        = [Some (VInt 0), None, None, None, Some (VInt 0)]
   \<and> values_at ''WAU'' (docs_passed (calls (snd (ProcessAmChuaFile demo config7 amchua_name [] (start empty_mem)))))
        = [None, Some (VInt 0), None, None, None]
   \<and> values_at ''DR1'' (docs_passed (calls (snd (ProcessAmChuaFile demo config7 amchua_name [] (start empty_mem)))))
        = [None, None, Some (VInt 0), Some (VInt 0), None]
   \<and> values_at ''DR2'' (docs_passed (calls (snd (ProcessAmChuaFile demo config7 amchua_name [] (start empty_mem)))))
        = [None, None, None, Some (VInt 0), None]"
proof -
  have h1: "parseFilenameForTimestamp config7 amchua_name = Inr 1764417600" by code_simp
  have h2: "fst (ProcessAmChuaFile demo config7 amchua_name [] (start empty_mem)) = Inr 5" by code_simp
  note inst = empty_AmChua_file_inserts_zero_documents
    [of config7 amchua_name 1764417600 "[]" demo "start empty_mem"]
  from inst have np: "\<forall>line \<in> set (Split (TrimSpace []) CHR 0x0A). length (Fields (TrimSpace line)) < 2"
    by blast
  have s0: "calls (start empty_mem) = []" by (simp add: start_def)
  from inst h1 np
  have c: "calls (snd (ProcessAmChuaFile demo config7 amchua_name [] (start empty_mem))) =
        [InsertOneCall ''sensor_data_P7IBJJ87''
           [''_id'' \<mapsto> VInt 1764417600, ''c'' \<mapsto> VInt (time_Now demo (world (start empty_mem)) div Second), ''RA'' \<mapsto> VInt 0],
         InsertOneCall ''sensor_data_LPDNWOUM''
           [''_id'' \<mapsto> VInt 1764417600, ''c'' \<mapsto> VInt (time_Now demo (world (start empty_mem)) div Second), ''WAU'' \<mapsto> VInt 0],
         InsertOneCall ''sensor_data_YLW16RKW''
           [''_id'' \<mapsto> VInt 1764417600, ''c'' \<mapsto> VInt (time_Now demo (world (start empty_mem)) div Second), ''DR1'' \<mapsto> VInt 0],
         InsertOneCall ''sensor_data_RIENVHK4''
           [''_id'' \<mapsto> VInt 1764417600, ''c'' \<mapsto> VInt (time_Now demo (world (start empty_mem)) div Second), ''DR1'' \<mapsto> VInt 0,
            ''DR2'' \<mapsto> VInt 0],
         InsertOneCall ''sensor_data_T5CRC2FV''
           [''_id'' \<mapsto> VInt 1764417600, ''c'' \<mapsto> VInt (time_Now demo (world (start empty_mem)) div Second), ''RA'' \<mapsto> VInt 0]]"
    unfolding s0 by simp
  show ?thesis
    unfolding c using h1 h2 by (simp add: values_at_def docs_passed_def)
qed

lemma add_metrics_other:
  "k \<notin> Code ` set ms \<Longrightarrow> add_metrics ms vm doc k = doc k"
  by (induction ms arbitrary: doc) (auto split: option.splits)

lemma dom_add_metrics:
  "dom (add_metrics ms vm doc) = dom doc \<union> Code ` set ms"
  by (induction ms arbitrary: doc) (auto split: option.splits)

lemma add_metrics_lookup:
  "distinct (map Code ms) \<Longrightarrow> m \<in> set ms \<Longrightarrow>
     add_metrics ms vm doc (Code m) =
       (case vm (Name m) of None \<Rightarrow> Some (VInt 0) | Some v \<Rightarrow> Some (VFloat v))"
proof (induction ms arbitrary: doc)
  case Nil
  then show ?case by simp
next
  case (Cons a ms)
  show ?case
  proof (cases "m = a")
    case True
    with Cons.prems have "Code a \<notin> Code ` set ms" by auto
    then show ?thesis using True by (simp add: add_metrics_other split: option.splits)
  next
    case False
    with Cons show ?thesis by auto
  qed
qed
lemma BoxesBR_ok: "\<forall>b \<in> set BoxesBR. metrics_ok (BR_Metrics b)"
  by (simp add: BoxesBR_def metrics_ok_def)

lemma AmChuaBoxes_ok: "\<forall>b \<in> set AmChuaBoxes. metrics_ok (AC_Metrics b)"
  by (simp add: AmChuaBoxes_def metrics_ok_def)

lemma document_shape:
  assumes "metrics_ok ms"
    and doc_def: "doc = add_metrics ms vm [''_id'' \<mapsto> VInt ts, ''c'' \<mapsto> VInt now]"
  shows "dom doc = {''_id'', ''c''} \<union> Code ` set ms"
    and "card (dom doc) = length ms + 2"
    and "doc ''_id'' = Some (VInt ts)"
    and "doc ''c'' = Some (VInt now)"
    and "\<forall>m \<in> set ms. doc (Code m) =
           (case vm (Name m) of None \<Rightarrow> Some (VInt 0) | Some v \<Rightarrow> Some (VFloat v))"
proof -
  from assms(1) have d: "distinct (map Code ms)" and i: "''_id'' \<notin> Code ` set ms"
    and c: "''c'' \<notin> Code ` set ms" by (simp_all add: metrics_ok_def)
  show dom: "dom doc = {''_id'', ''c''} \<union> Code ` set ms"
    unfolding doc_def dom_add_metrics by auto
  have "card (Code ` set ms) = length ms"
    using d by (metis distinct_card length_map set_map)
  moreover have "{''_id'', ''c''} \<inter> Code ` set ms = {}" using i c by auto
  ultimately show "card (dom doc) = length ms + 2"
    unfolding dom by (subst card_Un_disjoint) auto
  show "doc ''_id'' = Some (VInt ts)" unfolding doc_def using i by (simp add: add_metrics_other)
  show "doc ''c'' = Some (VInt now)" unfolding doc_def using c by (simp add: add_metrics_other)
  show "\<forall>m \<in> set ms. doc (Code m) =
           (case vm (Name m) of None \<Rightarrow> Some (VInt 0) | Some v \<Rightarrow> Some (VFloat v))"
    unfolding doc_def using d by (simp add: add_metrics_lookup)
qed

lemma zip_map_self: "zip xs (map f xs) = map (\<lambda>x. (x, f x)) xs"
  by (induction xs) simp_all

text \<open>
  C7.  The document that the BaRia loader inserts for the matched box, and each of the
  documents that the AmChua loader inserts for its boxes, has as keys exactly _id, c
  and the codes of the box's metrics, one key for each metric; a metric whose name
  is not among the parsed values has the integer 0, and one whose name is there has
  the parsed value.
\<close>

theorem single_record_document_has_every_metric:
  "(MatchBariaBox filename = Some b \<longrightarrow> ParseBariaTimestampFromFilename cfg filename = Inr ts \<longrightarrow>
      (\<exists>doc. calls (snd (ProcessBariaFile X cfg filename content s)) =
               calls s @ [InsertOneCall (''sensor_data_'' @ BR_ID b) doc]
         \<and> dom doc = {''_id'', ''c''} \<union> Code ` set (BR_Metrics b)
         \<and> card (dom doc) = length (BR_Metrics b) + 2
         \<and> (\<forall>m \<in> set (BR_Metrics b).
              doc (Code m) =
                (case baria_lines (ParseFloat X) (Split (TrimSpace content) CHR 0x0A) Map.empty (Name m) of
                   None \<Rightarrow> Some (VInt 0) | Some v \<Rightarrow> Some (VFloat v)))))
   \<and> (parseFilenameForTimestamp cfg filename' = Inr ts' \<longrightarrow>
      amchua_lines (ParseFloat X) (Split (TrimSpace content') CHR 0x0A) Map.empty = Some vm \<longrightarrow>
      (\<exists>docs. calls (snd (ProcessAmChuaFile X cfg filename' content' s)) =
                calls s @ map (\<lambda>(box, doc). InsertOneCall (''sensor_data_'' @ AC_ID box) doc)
                            (zip AmChuaBoxes docs)
         \<and> length docs = length AmChuaBoxes
         \<and> (\<forall>(box, doc) \<in> set (zip AmChuaBoxes docs).
              dom doc = {''_id'', ''c''} \<union> Code ` set (AC_Metrics box)
              \<and> card (dom doc) = length (AC_Metrics box) + 2
              \<and> (\<forall>m \<in> set (AC_Metrics box).
                   doc (Code m) = (case vm (Name m) of None \<Rightarrow> Some (VInt 0) | Some v \<Rightarrow> Some (VFloat v))))))"
proof (intro conjI impI)
  assume a: "MatchBariaBox filename = Some b" "ParseBariaTimestampFromFilename cfg filename = Inr ts"
  from MatchBariaBox_in_Some [of BoxesBR "ToSlash filename" b] a(1)
  have "b \<in> set BoxesBR" by (simp add: MatchBariaBox_def)
  with BoxesBR_ok have ok: "metrics_ok (BR_Metrics b)" by blast
  show "\<exists>doc. calls (snd (ProcessBariaFile X cfg filename content s)) =
               calls s @ [InsertOneCall (''sensor_data_'' @ BR_ID b) doc]
         \<and> dom doc = {''_id'', ''c''} \<union> Code ` set (BR_Metrics b)
         \<and> card (dom doc) = length (BR_Metrics b) + 2
         \<and> (\<forall>m \<in> set (BR_Metrics b).
              doc (Code m) =
                (case baria_lines (ParseFloat X) (Split (TrimSpace content) CHR 0x0A) Map.empty (Name m) of
                   None \<Rightarrow> Some (VInt 0) | Some v \<Rightarrow> Some (VFloat v)))"
    by (intro exI conjI, rule ProcessBariaFile_calls [OF a])
       (rule document_shape(1,2,5) [OF ok refl])+
next
  assume a: "parseFilenameForTimestamp cfg filename' = Inr ts'"
    "amchua_lines (ParseFloat X) (Split (TrimSpace content') CHR 0x0A) Map.empty = Some vm"
  define mk where "mk = (\<lambda>box :: AmChuaBox. add_metrics (AC_Metrics box) vm
      [''_id'' \<mapsto> VInt ts', ''c'' \<mapsto> VInt (time_Now X (world s) div Second)])"
  define docs where "docs = map mk AmChuaBoxes"
  have z: "zip AmChuaBoxes docs = map (\<lambda>box. (box, mk box)) AmChuaBoxes"
    unfolding docs_def by (rule zip_map_self)
  have 1: "calls (snd (ProcessAmChuaFile X cfg filename' content' s)) =
                calls s @ map (\<lambda>(box, doc). InsertOneCall (''sensor_data_'' @ AC_ID box) doc)
                            (zip AmChuaBoxes docs)"
    unfolding ProcessAmChuaFile_calls [OF a] z map_map comp_def mk_def prod.case ..
  have 2: "length docs = length AmChuaBoxes" by (simp add: docs_def)
  have 3: "\<forall>(box, doc) \<in> set (zip AmChuaBoxes docs).
              dom doc = {''_id'', ''c''} \<union> Code ` set (AC_Metrics box)
              \<and> card (dom doc) = length (AC_Metrics box) + 2
              \<and> (\<forall>m \<in> set (AC_Metrics box).
                   doc (Code m) = (case vm (Name m) of None \<Rightarrow> Some (VInt 0) | Some v \<Rightarrow> Some (VFloat v)))"
  proof (clarify)
    fix box doc assume "(box, doc) \<in> set (zip AmChuaBoxes docs)"
    then have b: "box \<in> set AmChuaBoxes" and d: "doc = mk box" unfolding z by auto
    from AmChuaBoxes_ok b have ok: "metrics_ok (AC_Metrics box)" by blast
    show "dom doc = {''_id'', ''c''} \<union> Code ` set (AC_Metrics box)
              \<and> card (dom doc) = length (AC_Metrics box) + 2
              \<and> (\<forall>m \<in> set (AC_Metrics box).
                   doc (Code m) = (case vm (Name m) of None \<Rightarrow> Some (VInt 0) | Some v \<Rightarrow> Some (VFloat v)))"
      unfolding d mk_def by (intro conjI) (rule document_shape(1,2,5) [OF ok refl])+
  qed
  from 1 2 3 show "\<exists>docs. calls (snd (ProcessAmChuaFile X cfg filename' content' s)) =
                calls s @ map (\<lambda>(box, doc). InsertOneCall (''sensor_data_'' @ AC_ID box) doc)
                            (zip AmChuaBoxes docs)
         \<and> length docs = length AmChuaBoxes
         \<and> (\<forall>(box, doc) \<in> set (zip AmChuaBoxes docs).
              dom doc = {''_id'', ''c''} \<union> Code ` set (AC_Metrics box)
              \<and> card (dom doc) = length (AC_Metrics box) + 2
              \<and> (\<forall>m \<in> set (AC_Metrics box).
                   doc (Code m) = (case vm (Name m) of None \<Rightarrow> Some (VInt 0) | Some v \<Rightarrow> Some (VFloat v))))"
    by (intro exI [of _ docs] conjI)
qed

text \<open>
  The theorem on the BaRia file of the specification's example and on an AmChua file
  that gives two of the six metrics.
\<close>

theorem single_record_document_has_every_metric_witness:
  "MatchBariaBox baria_name = Some (BoxesBR ! 0)
   \<and> ParseBariaTimestampFromFilename config7 baria_name = Inr 1766840400
   \<and> (\<exists>doc. calls (snd (ProcessBariaFile demo config7 baria_name baria_content (start empty_mem)))
               = [InsertOneCall ''sensor_data_S83FIGA0'' doc]
         \<and> dom doc = {''_id'', ''c'', ''WAU'', ''DR1''}
         \<and> card (dom doc) = 4)
   \<and> values_at ''WAU'' (docs_passed (calls (snd
         (ProcessBariaFile demo config7 baria_name baria_content (start empty_mem))))) = [Some (VFloat (25 / 2))]
   \<and> (\<exists>vm docs. amchua_lines (ParseFloat demo) (Split (TrimSpace amchua_content) CHR 0x0A) Map.empty = Some vm
         \<and> calls (snd (ProcessAmChuaFile demo config7 amchua_name amchua_content (start empty_mem)))
             = map (\<lambda>(box, doc). InsertOneCall (''sensor_data_'' @ AC_ID box) doc) (zip AmChuaBoxes docs)
         \<and> length docs = 5)
   \<and> values_at ''DR1'' (docs_passed (calls (snd
         (ProcessAmChuaFile demo config7 amchua_name amchua_content (start empty_mem)))))
        = [None, None, Some (VInt 0), Some (VInt 0), None]
   \<and> values_at ''DR2'' (docs_passed (calls (snd
         (ProcessAmChuaFile demo config7 amchua_name amchua_content (start empty_mem)))))
        = [None, None, None, Some (VFloat 4), None]"
proof -
  have h1: "MatchBariaBox baria_name = Some (BoxesBR ! 0)" by code_simp
  have h2: "ParseBariaTimestampFromFilename config7 baria_name = Inr 1766840400" by code_simp
  have h3: "parseFilenameForTimestamp config7 amchua_name = Inr 1764417600" by code_simp
  have h4: "amchua_lines (ParseFloat demo) (Split (TrimSpace amchua_content) CHR 0x0A) Map.empty \<noteq> None"
    by code_simp
  then obtain vm where vm: "amchua_lines (ParseFloat demo) (Split (TrimSpace amchua_content) CHR 0x0A) Map.empty = Some vm"
    by blast
  have s0: "calls (start empty_mem) = []" by (simp add: start_def)
  have b0: "BR_ID (BoxesBR ! 0) = ''S83FIGA0''" "Code ` set (BR_Metrics (BoxesBR ! 0)) = {''WAU'', ''DR1''}"
    "length (BR_Metrics (BoxesBR ! 0)) = 2" "length AmChuaBoxes = 5"
    by (simp_all add: BoxesBR_def AmChuaBoxes_def)
  note inst = single_record_document_has_every_metric
    [of baria_name "BoxesBR ! 0" config7 1766840400 demo baria_content "start empty_mem"
        amchua_name 1764417600 amchua_content vm]
  from inst [THEN conjunct1, rule_format, OF h1 h2] obtain doc where
    d: "calls (snd (ProcessBariaFile demo config7 baria_name baria_content (start empty_mem))) =
               calls (start empty_mem) @ [InsertOneCall (''sensor_data_'' @ BR_ID (BoxesBR ! 0)) doc]"
      "dom doc = {''_id'', ''c''} \<union> Code ` set (BR_Metrics (BoxesBR ! 0))"
      "card (dom doc) = length (BR_Metrics (BoxesBR ! 0)) + 2"
    by (elim exE conjE)
  have se: "{a, b} \<union> {c, d} = {a, b, c, d}" for a b c d :: string by blast
  have r1: "\<exists>doc. calls (snd (ProcessBariaFile demo config7 baria_name baria_content (start empty_mem)))
               = [InsertOneCall ''sensor_data_S83FIGA0'' doc]
         \<and> dom doc = {''_id'', ''c'', ''WAU'', ''DR1''}
         \<and> card (dom doc) = 4"
    using d unfolding s0 b0 se by (intro exI [of _ doc] conjI) simp_all
  from inst [THEN conjunct2, rule_format, OF h3 vm] obtain docs where
    ds: "calls (snd (ProcessAmChuaFile demo config7 amchua_name amchua_content (start empty_mem))) =
                calls (start empty_mem) @ map (\<lambda>(box, doc). InsertOneCall (''sensor_data_'' @ AC_ID box) doc)
                            (zip AmChuaBoxes docs)"
      "length docs = length AmChuaBoxes"
    by (elim exE conjE)
  have r2: "\<exists>vm docs. amchua_lines (ParseFloat demo) (Split (TrimSpace amchua_content) CHR 0x0A) Map.empty = Some vm
         \<and> calls (snd (ProcessAmChuaFile demo config7 amchua_name amchua_content (start empty_mem)))
             = map (\<lambda>(box, doc). InsertOneCall (''sensor_data_'' @ AC_ID box) doc) (zip AmChuaBoxes docs)
         \<and> length docs = 5"
    using vm ds unfolding s0 b0 by (intro exI [of _ vm] exI [of _ docs] conjI; simp)
  have e1: "values_at ''WAU'' (docs_passed (calls (snd
         (ProcessBariaFile demo config7 baria_name baria_content (start empty_mem))))) = [Some (VFloat (25 / 2))]"
    by code_simp
  have e2: "values_at ''DR1'' (docs_passed (calls (snd
         (ProcessAmChuaFile demo config7 amchua_name amchua_content (start empty_mem)))))
        = [None, None, Some (VInt 0), Some (VInt 0), None]"
    by code_simp
  have e3: "values_at ''DR2'' (docs_passed (calls (snd
         (ProcessAmChuaFile demo config7 amchua_name amchua_content (start empty_mem)))))
        = [None, None, None, Some (VFloat 4), None]"
    by code_simp
  from h1 h2 r1 r2 e1 e2 e3 show ?thesis by blast
qed

section \<open>Duplicate keys\<close>













text \<open>
  C4 as stated fails for the AmChua loader: with the key of the file stored for the
  first box only, the first insert meets the duplicate key and the loader returns the
  count four.
\<close>

theorem duplicate_key_zero_count_counterexample:
  "parseFilenameForTimestamp config7 amchua_name = Inr 1764417600
   \<and> amchua_answers demo 1764417600 (time_Now demo (world one_taken) div Second) amchua_values
         AmChuaBoxes one_taken
       = [Some ''E11000 duplicate key error collection: sensor_data_P7IBJJ87'', None, None, None, None]
   \<and> is_duplicate_key_error ''E11000 duplicate key error collection: sensor_data_P7IBJJ87''
   \<and> fst (ProcessAmChuaFile demo config7 amchua_name amchua_content one_taken) = Inr 4"
  by code_simp

section \<open>The watermark\<close>

lemma FilterNewRecords_filter:
  "FilterNewRecords X records maxID = filter (newer_than X maxID) records"
  by (induction records) (auto simp: newer_than_def split: sum.splits)

lemma newer_than_VInt: "r ''_id'' = Some (VInt k) \<Longrightarrow> newer_than X T r = (k > T)"
  by (simp add: newer_than_def GetInt64FromInterface_def)

lemma docs_passed_append [simp]: "docs_passed (xs @ ys) = docs_passed xs @ docs_passed ys"
  by (simp add: docs_passed_def)

lemma InsertMany_docs:
  "docs_passed (calls (snd (InsertMany X col docs s))) = docs_passed (calls s) @ docs"
  by (simp add: InsertMany_def docs_passed_def split: prod.splits)

lemma FindLatest_docs:
  "docs_passed (calls (snd (FindLatest X col s))) = docs_passed (calls s)"
  by (simp add: FindLatest_def docs_passed_def split: prod.splits)

lemma FindLatest_fst: "fst (FindLatest X col s) = fst (mongo_FindLatest X col (world s))"
  by (simp add: FindLatest_def split: prod.splits)

lemma InsertBatch_docs:
  "docs_passed (calls (snd (InsertBatch X col arr s))) = docs_passed (calls s) @ arr"
proof (cases arr)
  case Nil
  then show ?thesis by (simp add: InsertBatch_def)
next
  case (Cons a as)
  obtain r s' where r: "InsertMany X col arr s = (r, s')" by (cases "InsertMany X col arr s")
  with InsertMany_docs [of X col arr s] have "docs_passed (calls s') = docs_passed (calls s) @ arr"
    by simp
  with r Cons show ?thesis
    by (cases r) (auto simp: InsertBatch_def)
qed

lemma batch_slice:
  "i < length data \<Longrightarrow>
   take ((if i + BATCH_SIZE > length data then length data else i + BATCH_SIZE) - i) (drop i data)
     = take BATCH_SIZE (drop i data)"
  by auto

lemma InsertIgnoreDuplicate_from_docs:
  "(\<exists>k. docs_passed (calls (snd (InsertIgnoreDuplicate_from X col data i inserted s)))
         = docs_passed (calls s) @ take k (drop i data))
   \<and> (snd (fst (InsertIgnoreDuplicate_from X col data i inserted s)) = None \<longrightarrow>
        docs_passed (calls (snd (InsertIgnoreDuplicate_from X col data i inserted s)))
         = docs_passed (calls s) @ drop i data)"
proof (induction X col data i inserted s rule: InsertIgnoreDuplicate_from.induct)
  case (1 X col data i inserted s)
  show ?case
  proof (cases "i < length data")
    case False
    then show ?thesis
      by (subst (1 2 3) InsertIgnoreDuplicate_from.simps) (auto intro: exI [of _ 0])
  next
    case True
    define arr where "arr = take BATCH_SIZE (drop i data)"
    obtain r s' where r: "InsertBatch X col arr s = (r, s')" by (cases "InsertBatch X col arr s")
    from InsertBatch_docs [of X col arr s] r
    have d: "docs_passed (calls s') = docs_passed (calls s) @ arr" by simp
    have sl: "take ((if i + BATCH_SIZE > length data then length data else i + BATCH_SIZE) - i) (drop i data) = arr"
      unfolding arr_def using True by (rule batch_slice)
    show ?thesis
    proof (cases r)
      case (Inl err)
      have "InsertIgnoreDuplicate_from X col data i inserted s = ((inserted, Some err), s')"
        by (subst InsertIgnoreDuplicate_from.simps) (simp add: True Let_def sl r Inl del: InsertIgnoreDuplicate_from.simps)
      then show ?thesis using d unfolding arr_def by auto
    next
      case (Inr count)
      have eq: "InsertIgnoreDuplicate_from X col data i inserted s
                = InsertIgnoreDuplicate_from X col data (i + BATCH_SIZE) (inserted + count) s'"
        by (subst InsertIgnoreDuplicate_from.simps) (simp add: True Let_def sl r Inr del: InsertIgnoreDuplicate_from.simps)
      have ih: "(\<exists>k. docs_passed (calls (snd (InsertIgnoreDuplicate_from X col data (i + BATCH_SIZE) (inserted + count) s')))
         = docs_passed (calls s') @ take k (drop (i + BATCH_SIZE) data))
        \<and> (snd (fst (InsertIgnoreDuplicate_from X col data (i + BATCH_SIZE) (inserted + count) s')) = None \<longrightarrow>
        docs_passed (calls (snd (InsertIgnoreDuplicate_from X col data (i + BATCH_SIZE) (inserted + count) s')))
         = docs_passed (calls s') @ drop (i + BATCH_SIZE) data)"
      proof -
        have pr: "(r, s') = InsertBatch X col
            (take ((if i + BATCH_SIZE > length data then length data else i + BATCH_SIZE) - i) (drop i data)) s"
          unfolding sl r ..
        show ?thesis by (rule "1.IH" [OF True refl refl pr Inr])
      qed
      have t: "arr @ take k (drop (i + BATCH_SIZE) data) = take (BATCH_SIZE + k) (drop i data)" for k
        unfolding arr_def by (simp add: take_add add.commute)
      have a: "arr @ drop (i + BATCH_SIZE) data = drop i data"
        unfolding arr_def by (metis add.commute append_take_drop_id drop_drop)
      from ih obtain k where k: "docs_passed (calls (snd (InsertIgnoreDuplicate_from X col data (i + BATCH_SIZE) (inserted + count) s')))
         = docs_passed (calls s') @ take k (drop (i + BATCH_SIZE) data)" by blast
      have 1: "\<exists>k. docs_passed (calls (snd (InsertIgnoreDuplicate_from X col data i inserted s)))
         = docs_passed (calls s) @ take k (drop i data)"
        unfolding eq k d using t by (intro exI [of _ "BATCH_SIZE + k"]) simp
      have 2: "snd (fst (InsertIgnoreDuplicate_from X col data i inserted s)) = None \<longrightarrow>
        docs_passed (calls (snd (InsertIgnoreDuplicate_from X col data i inserted s)))
         = docs_passed (calls s) @ drop i data"
        unfolding eq using ih d a by simp
      from 1 2 show ?thesis by blast
    qed
  qed
qed

lemma InsertIgnoreDuplicate_docs:
  "(\<exists>k. docs_passed (calls (snd (InsertIgnoreDuplicate X col data s)))
         = docs_passed (calls s) @ take k data)
   \<and> (snd (fst (InsertIgnoreDuplicate X col data s)) = None \<longrightarrow>
        docs_passed (calls (snd (InsertIgnoreDuplicate X col data s)))
         = docs_passed (calls s) @ data)"
  using InsertIgnoreDuplicate_from_docs [of X col data 0 0 s]
  by (simp add: InsertIgnoreDuplicate_def)

text \<open>The records that InsertSensorRecords selects, by the answer of the latest-record query.\<close>

lemma InsertSensorRecords_selected:
  assumes "GetLatestRecord X (''sensor_data_'' @ Box_ID box) s = (Inr maxTs, s1)"
    and "toInsert = (case maxTs of
                      Some m \<Rightarrow>
                        (case GetInt64FromInterface X (m ''_id'') of
                           Inl err \<Rightarrow> records
                         | Inr maxID \<Rightarrow> FilterNewRecords X records maxID)
                    | None \<Rightarrow> records)"
  shows "snd (InsertSensorRecords X filename deviceID box records s)
           = snd (InsertIgnoreDuplicate X (''sensor_data_'' @ Box_ID box) toInsert s1)"
    and "(\<exists>n. fst (InsertSensorRecords X filename deviceID box records s) = Inr n)
           \<longleftrightarrow> snd (fst (InsertIgnoreDuplicate X (''sensor_data_'' @ Box_ID box) toInsert s1)) = None"
proof -
  obtain ins e s2 where r: "InsertIgnoreDuplicate X (''sensor_data_'' @ Box_ID box) toInsert s1 = ((ins, e), s2)"
    by (cases "InsertIgnoreDuplicate X (''sensor_data_'' @ Box_ID box) toInsert s1") auto
  have "InsertSensorRecords X filename deviceID box records s =
      (case e of Some err \<Rightarrow> (Inl (Wrapped (''file '' @ filename @ '': failed to insert records into ''
                                   @ ''sensor_data_'' @ Box_ID box) err), s2)
       | None \<Rightarrow> (Inr ins, s2))"
    unfolding InsertSensorRecords_def Let_def assms(1) prod.case sum.case assms(2) [symmetric] r
    by (cases e) simp_all
  then show "snd (InsertSensorRecords X filename deviceID box records s)
           = snd (InsertIgnoreDuplicate X (''sensor_data_'' @ Box_ID box) toInsert s1)"
    and "(\<exists>n. fst (InsertSensorRecords X filename deviceID box records s) = Inr n)
           \<longleftrightarrow> snd (fst (InsertIgnoreDuplicate X (''sensor_data_'' @ Box_ID box) toInsert s1)) = None"
    unfolding r by (cases e; simp)+
qed

lemma GetLatestRecord_cases:
  "fst (mongo_FindLatest X col (world s)) = Found m \<Longrightarrow>
     \<exists>s1. GetLatestRecord X col s = (Inr (Some m), s1) \<and> docs_passed (calls s1) = docs_passed (calls s)"
  "fst (mongo_FindLatest X col (world s)) = ErrNoDocuments \<Longrightarrow>
     \<exists>s1. GetLatestRecord X col s = (Inr None, s1) \<and> docs_passed (calls s1) = docs_passed (calls s)"
  using FindLatest_fst [of X col s] FindLatest_docs [of X col s]
  by (cases "FindLatest X col s"; simp add: GetLatestRecord_def)+

lemma InsertSensorRecords_docs:
  assumes "GetLatestRecord X (''sensor_data_'' @ Box_ID box) s = (Inr maxTs, s1)"
    and "docs_passed (calls s1) = docs_passed (calls s)"
    and "toInsert = (case maxTs of
                      Some m \<Rightarrow>
                        (case GetInt64FromInterface X (m ''_id'') of
                           Inl err \<Rightarrow> records
                         | Inr maxID \<Rightarrow> FilterNewRecords X records maxID)
                    | None \<Rightarrow> records)"
  shows "(\<exists>k. docs_passed (calls (snd (InsertSensorRecords X filename deviceID box records s)))
               = docs_passed (calls s) @ take k toInsert)
         \<and> ((\<exists>n. fst (InsertSensorRecords X filename deviceID box records s) = Inr n) \<longrightarrow>
              docs_passed (calls (snd (InsertSensorRecords X filename deviceID box records s)))
               = docs_passed (calls s) @ toInsert)"
  unfolding InsertSensorRecords_selected [OF assms(1,3)] assms(2) [symmetric]
  by (rule InsertIgnoreDuplicate_docs)

text \<open>
  C3.  When the latest record of the box collection has the integer key T, the records
  that InsertSensorRecords hands to the store are, in order, records whose key is
  greater than T, a prefix of the filtered candidates; when the insertion returns
  without error they are all the candidates whose key is greater than T and no other.
  When the collection is empty the same holds with all the candidates.  A candidate
  with an integer key k passes the filter exactly when k is greater than T.
\<close>

theorem watermark_filter_before_insert:
  "(fst (mongo_FindLatest X (''sensor_data_'' @ Box_ID box) (world s)) = Found m \<longrightarrow>
      m ''_id'' = Some (VInt T) \<longrightarrow>
      (\<exists>k. docs_passed (calls (snd (InsertSensorRecords X filename deviceID box records s)))
             = docs_passed (calls s) @ take k (filter (newer_than X T) records))
      \<and> ((\<exists>n. fst (InsertSensorRecords X filename deviceID box records s) = Inr n) \<longrightarrow>
           docs_passed (calls (snd (InsertSensorRecords X filename deviceID box records s)))
             = docs_passed (calls s) @ filter (newer_than X T) records))
   \<and> (fst (mongo_FindLatest X (''sensor_data_'' @ Box_ID box) (world s)) = ErrNoDocuments \<longrightarrow>
      (\<exists>k. docs_passed (calls (snd (InsertSensorRecords X filename deviceID box records s)))
             = docs_passed (calls s) @ take k records)
      \<and> ((\<exists>n. fst (InsertSensorRecords X filename deviceID box records s) = Inr n) \<longrightarrow>
           docs_passed (calls (snd (InsertSensorRecords X filename deviceID box records s)))
             = docs_passed (calls s) @ records))
   \<and> (r ''_id'' = Some (VInt k) \<longrightarrow> newer_than X T r = (k > T))"
proof (intro conjI impI)
  assume f: "fst (mongo_FindLatest X (''sensor_data_'' @ Box_ID box) (world s)) = Found m"
    and m: "m ''_id'' = Some (VInt T)"
  from GetLatestRecord_cases(1) [OF f] obtain s1 where
    g: "GetLatestRecord X (''sensor_data_'' @ Box_ID box) s = (Inr (Some m), s1)"
    and d: "docs_passed (calls s1) = docs_passed (calls s)" by blast
  have t: "filter (newer_than X T) records =
       (case Some m of
          Some m \<Rightarrow>
            (case GetInt64FromInterface X (m ''_id'') of
               Inl err \<Rightarrow> records
             | Inr maxID \<Rightarrow> FilterNewRecords X records maxID)
        | None \<Rightarrow> records)"
    by (simp add: m GetInt64FromInterface_def FilterNewRecords_filter)
  note r = InsertSensorRecords_docs [OF g d t, of filename deviceID]
  from r show "\<exists>k. docs_passed (calls (snd (InsertSensorRecords X filename deviceID box records s)))
             = docs_passed (calls s) @ take k (filter (newer_than X T) records)" by (rule conjunct1)
  assume "\<exists>n. fst (InsertSensorRecords X filename deviceID box records s) = Inr n"
  with r show "docs_passed (calls (snd (InsertSensorRecords X filename deviceID box records s)))
             = docs_passed (calls s) @ filter (newer_than X T) records" by blast
next
  assume f: "fst (mongo_FindLatest X (''sensor_data_'' @ Box_ID box) (world s)) = ErrNoDocuments"
  from GetLatestRecord_cases(2) [OF f] obtain s1 where
    g: "GetLatestRecord X (''sensor_data_'' @ Box_ID box) s = (Inr None, s1)"
    and d: "docs_passed (calls s1) = docs_passed (calls s)" by blast
  have t: "records =
       (case None of
          Some m \<Rightarrow>
            (case GetInt64FromInterface X (m ''_id'') of
               Inl err \<Rightarrow> records
             | Inr maxID \<Rightarrow> FilterNewRecords X records maxID)
        | None \<Rightarrow> records)"
    by simp
  note r = InsertSensorRecords_docs [OF g d t, of filename deviceID]
  from r show "\<exists>k. docs_passed (calls (snd (InsertSensorRecords X filename deviceID box records s)))
             = docs_passed (calls s) @ take k records" by (rule conjunct1)
  assume "\<exists>n. fst (InsertSensorRecords X filename deviceID box records s) = Inr n"
  with r show "docs_passed (calls (snd (InsertSensorRecords X filename deviceID box records s)))
             = docs_passed (calls s) @ records" by blast
next
  assume "r ''_id'' = Some (VInt k)"
  then show "newer_than X T r = (k > T)" by (rule newer_than_VInt)
qed

text \<open>
  The theorem on a collection whose greatest key is 100 and on an empty collection,
  with candidates of keys 99, 100, 101 and 102.
\<close>

theorem watermark_filter_before_insert_witness:
  "fst (InsertSensorRecords demo ''a.csv'' ''CR300_19531'' box1 four_records (start world100)) = Inr 2
   \<and> ids_of (docs_passed (calls (snd
        (InsertSensorRecords demo ''a.csv'' ''CR300_19531'' box1 four_records (start world100)))))
       = [Some (VInt 101), Some (VInt 102)]
   \<and> fst (InsertSensorRecords demo ''a.csv'' ''CR300_19531'' box1 four_records (start empty_mem)) = Inr 4
   \<and> ids_of (docs_passed (calls (snd
        (InsertSensorRecords demo ''a.csv'' ''CR300_19531'' box1 four_records (start empty_mem)))))
       = [Some (VInt 99), Some (VInt 100), Some (VInt 101), Some (VInt 102)]"
proof -
  have f1: "fst (mongo_FindLatest demo (''sensor_data_'' @ Box_ID box1) (world (start world100)))
              = Found (rec_with_id 100)"
    by (simp add: demo_def mem_FindLatest_def start_def world100_def box1_def)
  have m1: "rec_with_id 100 ''_id'' = Some (VInt 100)" by (simp add: rec_with_id_def)
  have f2: "fst (mongo_FindLatest demo (''sensor_data_'' @ Box_ID box1) (world (start empty_mem)))
              = ErrNoDocuments"
    by (simp add: demo_def mem_FindLatest_def start_def empty_mem_def box1_def)
  have n1: "fst (InsertSensorRecords demo ''a.csv'' ''CR300_19531'' box1 four_records (start world100)) = Inr 2"
    by code_simp
  have n2: "fst (InsertSensorRecords demo ''a.csv'' ''CR300_19531'' box1 four_records (start empty_mem)) = Inr 4"
    by code_simp
  have s0: "calls (start world100) = []" "calls (start empty_mem) = []" by (simp_all add: start_def)
  note i1 = watermark_filter_before_insert
    [of demo box1 "start world100" "rec_with_id 100" 100 "''a.csv''" "''CR300_19531''" four_records]
  note i2 = watermark_filter_before_insert
    [of demo box1 "start empty_mem" "rec_with_id 100" 100 "''a.csv''" "''CR300_19531''" four_records]
  from i1 [THEN conjunct1, rule_format, OF f1 m1, THEN conjunct2] n1
  have d1: "docs_passed (calls (snd (InsertSensorRecords demo ''a.csv'' ''CR300_19531'' box1 four_records (start world100))))
             = docs_passed (calls (start world100)) @ filter (newer_than demo 100) four_records"
    by blast
  from i2 [THEN conjunct2, THEN conjunct1, rule_format, OF f2, THEN conjunct2] n2
  have d2: "docs_passed (calls (snd (InsertSensorRecords demo ''a.csv'' ''CR300_19531'' box1 four_records (start empty_mem))))
             = docs_passed (calls (start empty_mem)) @ four_records"
    by blast
  have fl: "filter (newer_than demo 100) four_records = [rec_with_id 101, rec_with_id 102]"
    by (simp add: four_records_def newer_than_def GetInt64FromInterface_def rec_with_id_def)
  have r1: "ids_of (docs_passed (calls (snd
        (InsertSensorRecords demo ''a.csv'' ''CR300_19531'' box1 four_records (start world100)))))
       = [Some (VInt 101), Some (VInt 102)]"
    unfolding d1 fl s0 by (simp add: ids_of_def docs_passed_def rec_with_id_def)
  have r2: "ids_of (docs_passed (calls (snd
        (InsertSensorRecords demo ''a.csv'' ''CR300_19531'' box1 four_records (start empty_mem)))))
       = [Some (VInt 99), Some (VInt 100), Some (VInt 101), Some (VInt 102)]"
    unfolding d2 s0 by (simp add: ids_of_def docs_passed_def four_records_def rec_with_id_def)
  from n1 r1 n2 r2 show ?thesis by blast
qed

section \<open>Store errors and the event handler\<close>















section \<open>Timestamps as primary keys\<close>

lemma ids_of_append: "ids_of (xs @ ys) = ids_of xs @ ids_of ys"
  by (simp add: ids_of_def)

lemma docs_passed_InsertOne_calls:
  "docs_passed (map (\<lambda>box. InsertOneCall (c box) (d box)) boxes) = map d boxes"
  by (induction boxes) (simp_all add: docs_passed_def)

lemma ProcessBariaFile_key:
  assumes "MatchBariaBox filename = Some b" "ParseBariaTimestampFromFilename cfg filename = Inr ts"
  shows "ids_of (docs_passed (calls (snd (ProcessBariaFile X cfg filename content s))))
           = ids_of (docs_passed (calls s)) @ [Some (VInt ts)]"
proof -
  from MatchBariaBox_in_Some [of BoxesBR "ToSlash filename" b] assms(1)
  have "b \<in> set BoxesBR" by (simp add: MatchBariaBox_def)
  with BoxesBR_ok have ok: "metrics_ok (BR_Metrics b)" by blast
  show ?thesis
    unfolding ProcessBariaFile_calls [OF assms] docs_passed_append ids_of_append
    by (simp add: docs_passed_def ids_of_def document_shape(3) [OF ok refl])
qed

lemma ProcessAmChuaFile_keys:
  assumes "parseFilenameForTimestamp cfg filename = Inr ts"
    "amchua_lines (ParseFloat X) (Split (TrimSpace content) CHR 0x0A) Map.empty = Some vm"
  shows "ids_of (docs_passed (calls (snd (ProcessAmChuaFile X cfg filename content s))))
           = ids_of (docs_passed (calls s)) @ replicate (length AmChuaBoxes) (Some (VInt ts))"
proof -
  have "map (\<lambda>box. add_metrics (AC_Metrics box) vm
                 [''_id'' \<mapsto> VInt ts, ''c'' \<mapsto> VInt (time_Now X (world s) div Second)] ''_id'') AmChuaBoxes
        = map (\<lambda>box. Some (VInt ts)) AmChuaBoxes"
  proof (rule map_cong [OF refl])
    fix box assume "box \<in> set AmChuaBoxes"
    with AmChuaBoxes_ok have ok: "metrics_ok (AC_Metrics box)" by blast
    show "add_metrics (AC_Metrics box) vm
                 [''_id'' \<mapsto> VInt ts, ''c'' \<mapsto> VInt (time_Now X (world s) div Second)] ''_id'' = Some (VInt ts)"
      by (rule document_shape(3) [OF ok refl])
  qed
  then show ?thesis
    unfolding ProcessAmChuaFile_calls [OF assms] docs_passed_append ids_of_append
      docs_passed_InsertOne_calls
    by (simp add: ids_of_def comp_def map_replicate_const)
qed

text \<open>
  C1, as the loader has it.  The timestamp taken from a file name, by the BaRia loader
  (FamilyA, the text after the last underscore of the base name) and by the AmChua
  loader (FamilyB, the whole base name), is the parsed instant truncated to the start
  of its minute, a multiple of 60 seconds, and it is the key of every document the
  loader inserts for the file.  The timestamp of a row of a tabular file (FamilyC) is
  not truncated: the key of every record is the Unix time of the instant parsed from
  the first cell of a row, seconds included (given that no column from the third on
  is named _id).
\<close>

theorem filename_timestamps_truncated_row_timestamps_kept:
  "(ParseBariaTimestampFromFilename cfg filename = Inr ts \<longrightarrow>
      ts mod 60 = 0
      \<and> (\<exists>t. ParseInLocation Compact
                (drop (nat (LastIndex (TrimSuffix (Base filename) (Ext (Base filename))) ''_'' + 1))
                   (TrimSuffix (Base filename) (Ext (Base filename))))
                (TimezoneLocation cfg) = Inr t
             \<and> ts = Unix t - Unix t mod 60)
      \<and> (MatchBariaBox filename \<noteq> None \<longrightarrow>
           ids_of (docs_passed (calls (snd (ProcessBariaFile X cfg filename content s))))
             = ids_of (docs_passed (calls s)) @ [Some (VInt ts)]))
   \<and> (parseFilenameForTimestamp cfg filename' = Inr ts' \<longrightarrow>
      ts' mod 60 = 0
      \<and> (\<exists>t. ParseInLocation Compact (TrimSuffix (Base (Base filename')) (Ext (Base filename')))
                (TimezoneLocation cfg) = Inr t
             \<and> ts' = Unix t - Unix t mod 60)
      \<and> (amchua_lines (ParseFloat X) (Split (TrimSpace content') CHR 0x0A) Map.empty \<noteq> None \<longrightarrow>
           ids_of (docs_passed (calls (snd (ProcessAmChuaFile X cfg filename' content' s))))
             = ids_of (docs_passed (calls s)) @ replicate (length AmChuaBoxes) (Some (VInt ts'))))
   \<and> (''_id'' \<notin> set (drop 2 columns) \<longrightarrow>
      (\<forall>r \<in> set (ExtractObject_rows pf cfg columns data).
         \<exists>row \<in> set data. \<exists>t.
           ParseInLocation Dashed (row ! 0) (TimezoneLocation cfg) = Inr t
           \<and> r ''_id'' = Some (VInt (Unix t))))"
proof (intro conjI impI)
  assume a: "ParseBariaTimestampFromFilename cfg filename = Inr ts"
  from Baria_timestamp [OF a] obtain t where t: "ts = Unix t - Unix t mod 60" by blast
  show "ts mod 60 = 0" unfolding t by presburger
  show "\<exists>t. ParseInLocation Compact
              (drop (nat (LastIndex (TrimSuffix (Base filename) (Ext (Base filename))) ''_'' + 1))
                 (TrimSuffix (Base filename) (Ext (Base filename))))
              (TimezoneLocation cfg) = Inr t
           \<and> ts = Unix t - Unix t mod 60"
    by (rule Baria_timestamp [OF a])
  assume "MatchBariaBox filename \<noteq> None"
  then obtain b where "MatchBariaBox filename = Some b" by blast
  then show "ids_of (docs_passed (calls (snd (ProcessBariaFile X cfg filename content s))))
             = ids_of (docs_passed (calls s)) @ [Some (VInt ts)]"
    using a by (rule ProcessBariaFile_key)
next
  assume a: "parseFilenameForTimestamp cfg filename' = Inr ts'"
  from AmChua_timestamp [OF a] obtain t where t: "ts' = Unix t - Unix t mod 60" by blast
  show "ts' mod 60 = 0" unfolding t by presburger
  show "\<exists>t. ParseInLocation Compact (TrimSuffix (Base (Base filename')) (Ext (Base filename')))
              (TimezoneLocation cfg) = Inr t
           \<and> ts' = Unix t - Unix t mod 60"
    by (rule AmChua_timestamp [OF a])
  assume "amchua_lines (ParseFloat X) (Split (TrimSpace content') CHR 0x0A) Map.empty \<noteq> None"
  then obtain vm where "amchua_lines (ParseFloat X) (Split (TrimSpace content') CHR 0x0A) Map.empty = Some vm"
    by blast
  with a show "ids_of (docs_passed (calls (snd (ProcessAmChuaFile X cfg filename' content' s))))
             = ids_of (docs_passed (calls s)) @ replicate (length AmChuaBoxes) (Some (VInt ts'))"
    by (rule ProcessAmChuaFile_keys)
next
  assume "''_id'' \<notin> set (drop 2 columns)"
  then show "\<forall>r \<in> set (ExtractObject_rows pf cfg columns data).
         \<exists>row \<in> set data. \<exists>t.
           ParseInLocation Dashed (row ! 0) (TimezoneLocation cfg) = Inr t
           \<and> r ''_id'' = Some (VInt (Unix t))"
    using ExtractObject_rows_id by blast
qed

text \<open>
  The theorem at three inputs: a BaRia file name and an AmChua file name whose tokens
  carry seconds 09 and 30, and a tabular row stamped 20:00:09.  The two file names
  give the start of the minute; the row keeps its nine seconds.
\<close>

theorem filename_timestamps_truncated_row_timestamps_kept_witness:
  "ParseBariaTimestampFromFilename config7 baria_name = Inr 1766840400
   \<and> (1766840400 :: int) mod 60 = 0
   \<and> ids_of (docs_passed (calls (snd (ProcessBariaFile demo config7 baria_name baria_content (start empty_mem)))))
       = [Some (VInt 1766840400)]
   \<and> parseFilenameForTimestamp config7 amchua_name = Inr 1764417600
   \<and> (1764417600 :: int) mod 60 = 0
   \<and> ids_of (docs_passed (calls (snd (ProcessAmChuaFile demo config7 amchua_name amchua_content (start empty_mem)))))
       = [Some (VInt 1764417600), Some (VInt 1764417600), Some (VInt 1764417600),
          Some (VInt 1764417600), Some (VInt 1764417600)]
   \<and> ''_id'' \<notin> set (drop 2 [''TIMESTAMP'', ''RECORD'', ''water_up''])
   \<and> (\<exists>t. ParseInLocation Dashed ''2025-12-27 20:00:09'' (TimezoneLocation config7) = Inr t
          \<and> ids_of (ExtractObject_rows demo_ParseFloat config7 [''TIMESTAMP'', ''RECORD'', ''water_up'']
                [[''2025-12-27 20:00:09'', ''1'', ''2.5'']]) = [Some (VInt (Unix t))])"
proof -
  define rows where "rows = ExtractObject_rows demo_ParseFloat config7 [''TIMESTAMP'', ''RECORD'', ''water_up'']
                [[''2025-12-27 20:00:09'', ''1'', ''2.5'']]"
  have b: "ParseBariaTimestampFromFilename config7 baria_name = Inr 1766840400"
    by code_simp
  have bm: "MatchBariaBox baria_name \<noteq> None" by code_simp
  have a: "parseFilenameForTimestamp config7 amchua_name = Inr 1764417600"
    by code_simp
  have av: "amchua_lines (ParseFloat demo) (Split (TrimSpace amchua_content) CHR 0x0A) Map.empty \<noteq> None"
    by code_simp
  have c: "''_id'' \<notin> set (drop 2 [''TIMESTAMP'', ''RECORD'', ''water_up''])"
    by simp
  have len: "length rows = 1" unfolding rows_def by code_simp
  then obtain r where r: "rows = [r]" by (cases rows) auto
  have s0: "calls (start empty_mem) = []" by (simp add: start_def)
  have n5: "length AmChuaBoxes = 5" by (simp add: AmChuaBoxes_def)
  note inst = filename_timestamps_truncated_row_timestamps_kept
    [of config7 baria_name 1766840400 demo baria_content "start empty_mem"
        amchua_name 1764417600 amchua_content
        "[''TIMESTAMP'', ''RECORD'', ''water_up'']" demo_ParseFloat
        "[[''2025-12-27 20:00:09'', ''1'', ''2.5'']]", folded rows_def]
  from inst b have m1: "(1766840400 :: int) mod 60 = 0" by blast
  from inst b bm
  have k1: "ids_of (docs_passed (calls (snd (ProcessBariaFile demo config7 baria_name baria_content (start empty_mem)))))
       = ids_of (docs_passed (calls (start empty_mem))) @ [Some (VInt 1766840400)]"
    by blast
  from inst a have m2: "(1764417600 :: int) mod 60 = 0" by blast
  from inst a av
  have k2: "ids_of (docs_passed (calls (snd (ProcessAmChuaFile demo config7 amchua_name amchua_content (start empty_mem)))))
       = ids_of (docs_passed (calls (start empty_mem))) @ replicate (length AmChuaBoxes) (Some (VInt 1764417600))"
    by blast
  from inst c have "\<forall>r \<in> set rows. \<exists>row \<in> set [[''2025-12-27 20:00:09'', ''1'', ''2.5'']]. \<exists>t.
           ParseInLocation Dashed (row ! 0) (TimezoneLocation config7) = Inr t
           \<and> r ''_id'' = Some (VInt (Unix t))"
    by blast
  then have k3: "\<exists>t. ParseInLocation Dashed ''2025-12-27 20:00:09'' (TimezoneLocation config7) = Inr t
          \<and> ids_of rows = [Some (VInt (Unix t))]"
    unfolding r by (simp add: ids_of_def)
  have k1': "ids_of (docs_passed (calls (snd (ProcessBariaFile demo config7 baria_name baria_content (start empty_mem)))))
       = [Some (VInt 1766840400)]"
    unfolding k1 s0 by (simp add: ids_of_def docs_passed_def)
  have k2': "ids_of (docs_passed (calls (snd (ProcessAmChuaFile demo config7 amchua_name amchua_content (start empty_mem)))))
       = [Some (VInt 1764417600), Some (VInt 1764417600), Some (VInt 1764417600),
          Some (VInt 1764417600), Some (VInt 1764417600)]"
    unfolding k2 s0 n5 by (simp add: ids_of_def docs_passed_def numeral_eq_Suc)
  from a b c m1 m2 k1' k2' k3 show ?thesis unfolding rows_def by blast
qed

text \<open>
  C1 as stated fails on a tabular row: the row stamped 2025-12-27 20:00:09 in the zone
  seven hours east of UTC gets the key 1766840409, which is nine seconds past the
  start of its minute.
\<close>

theorem row_timestamp_truncated_counterexample:
  "ids_of (ExtractObject_rows demo_ParseFloat config7 [''TIMESTAMP'', ''RECORD'', ''water_up'']
      [[''2025-12-27 20:00:09'', ''1'', ''2.5'']]) = [Some (VInt 1766840409)]
   \<and> (1766840409 :: int) mod 60 = 9"
  by code_simp

end
